theory Spec2Isabelle
  imports Complex_Main
begin

section \<open>The interaction selector: PairWiseCalc (main.cpp, lines 56-121)\<close>

text \<open>
  The two C arrays \<open>XPW\<close> (axial) and \<open>LPW\<close> (lateral) are lists; the function reads
  the entries \<open>0..lastPair\<close> and nothing else, so every statement below is about lists
  that are longer than \<open>lastPair\<close>. The C type \<open>double\<close>
  is modelled by \<open>real\<close>, the counters of type \<open>short\<close> by \<open>nat\<close> (no counter exceeds 20
  in the program). \<open>previousPWType\<close> is 0 (no pair), 1 (lateral), 2 (axial) or 9 (the value
  of the first call).

  The three flags \<open>NoPairT\<close>, \<open>LatPairT\<close> and \<open>AxPairT\<close> of the source are false whenever they
  are tested, so each test \<open>not flag\<close> is true and is left out. The variable
  \<open>currentPWSum\<close> is one local variable of the call: what the lateral block adds to it is
  still in it when the axial block runs (\<open>Sum2\<close>, \<open>Sum3\<close> below), and the value of
  \<open>BestPWTotal\<close> is threaded from one recursive call to the next (\<open>Best1\<close>, \<open>Best2\<close>).
  Every \<open>return\<close> of the source is a branch of the model.
\<close>

function PairWiseCalc ::
  "real list \<Rightarrow> real list \<Rightarrow> nat \<Rightarrow> nat \<Rightarrow> nat \<Rightarrow> real \<Rightarrow> real \<Rightarrow> real" where
  "PairWiseCalc XPW LPW currentPair lastPair previousPWType currentPWSum BestPWTotal =
    (if currentPair > lastPair then BestPWTotal
     else if previousPWType \<noteq> 0 \<and> currentPair = lastPair then
       (if currentPWSum > BestPWTotal then currentPWSum else BestPWTotal)
     else
       let Best1 = (if previousPWType \<noteq> 0
                    then PairWiseCalc XPW LPW (currentPair + 1) lastPair 0 currentPWSum BestPWTotal
                    else BestPWTotal)
       in if previousPWType \<noteq> 2 then
            let Sum2 = (if LPW ! currentPair > 0 then currentPWSum + LPW ! currentPair
                        else currentPWSum)
            in if currentPair = lastPair then (if Sum2 > Best1 then Sum2 else Best1)
               else
                 let Best2 = PairWiseCalc XPW LPW (currentPair + 1) lastPair 1 Sum2 Best1;
                     Sum3 = (if XPW ! currentPair > 0 then Sum2 + XPW ! currentPair else Sum2)
                 in PairWiseCalc XPW LPW (currentPair + 1) lastPair 2 Sum3 Best2
          else
            let Sum3 = (if XPW ! currentPair > 0 then currentPWSum + XPW ! currentPair
                        else currentPWSum)
            in if currentPair = lastPair then (if Sum3 > Best1 then Sum3 else Best1)
               else PairWiseCalc XPW LPW (currentPair + 1) lastPair 2 Sum3 Best1)"
  by pat_completeness auto
termination
  by (relation "measure (\<lambda>(XPW, LPW, currentPair, lastPair, previousPWType, currentPWSum, BestPWTotal).
        Suc lastPair - currentPair)") auto

subsection \<open>The optimum described by the specification\<close>

text \<open>
  This definition follows the words of the specification, not the source: every site
  gets one of three states; two consecutive sites are never both \<open>NoPair\<close>; a site is
  never \<open>LatPair\<close> directly after an \<open>AxPair\<close> site; a site contributes its lateral or
  axial value only when that value is positive. \<open>claimed_maximum\<close> is the largest sum
  over all admissible assignments to the sites \<open>0..lastPair\<close>.
\<close>

datatype PWState = NoPair | LatPair | AxPair

fun site_value :: "real list \<Rightarrow> real list \<Rightarrow> nat \<Rightarrow> PWState \<Rightarrow> real" where
  "site_value XPW LPW i NoPair = 0"
| "site_value XPW LPW i LatPair = (if LPW ! i > 0 then LPW ! i else 0)"
| "site_value XPW LPW i AxPair = (if XPW ! i > 0 then XPW ! i else 0)"

fun admissible :: "PWState list \<Rightarrow> bool" where
  "admissible (s # t # rest) =
     (\<not> (s = NoPair \<and> t = NoPair) \<and> \<not> (s = AxPair \<and> t = LatPair) \<and> admissible (t # rest))"
| "admissible [s] = True"
| "admissible [] = True"

fun assignments :: "nat \<Rightarrow> PWState list list" where
  "assignments 0 = [] # []"
| "assignments (Suc n) =
     concat (map (\<lambda>s. map ((#) s) (assignments n)) [NoPair, LatPair, AxPair])"

fun assignment_sum :: "real list \<Rightarrow> real list \<Rightarrow> nat \<Rightarrow> PWState list \<Rightarrow> real" where
  "assignment_sum XPW LPW i [] = 0"
| "assignment_sum XPW LPW i (s # rest) =
     site_value XPW LPW i s + assignment_sum XPW LPW (Suc i) rest"

definition claimed_maximum :: "real list \<Rightarrow> real list \<Rightarrow> nat \<Rightarrow> real" where
  "claimed_maximum XPW LPW lastPair =
     Max (set (map (assignment_sum XPW LPW 0) (filter admissible (assignments (Suc lastPair)))))"

section \<open>The data model (main.cpp, lines 22-49 and 124-223)\<close>

text \<open>
  \<open>parameterType\<close>: the tables are indexed by \<open>(short) letter - 64\<close>, an integer (1 for
  \<open>A\<close>, 26 for \<open>Z\<close>); the C arrays have 27 entries and the model takes them as functions
  of the integer index. The fields \<open>charge\<close>, \<open>Nterm\<close>, \<open>Cterm\<close>, \<open>optLength\<close>, \<open>exA\<close>,
  \<open>exB\<close>, \<open>exC\<close>, \<open>exCharge\<close>, \<open>exNterm\<close> and \<open>exCterm\<close> are read nowhere in the code that
  is modelled and are left out.
\<close>

record parameterType =
  axial :: "int \<Rightarrow> int \<Rightarrow> real"
  lateral :: "int \<Rightarrow> int \<Rightarrow> real"
  propensityX :: "int \<Rightarrow> real"
  propensityY :: "int \<Rightarrow> real"
  A :: real
  B :: real
  C :: real
  optPropX :: "int \<Rightarrow> bool"
  optPropY :: "int \<Rightarrow> bool"
  optAxial :: "int \<Rightarrow> int \<Rightarrow> bool"
  optLat :: "int \<Rightarrow> int \<Rightarrow> bool"
  exAxial :: "int \<Rightarrow> int \<Rightarrow> real"
  exLateral :: "int \<Rightarrow> int \<Rightarrow> real"
  exPropensityX :: "int \<Rightarrow> real"
  exPropensityY :: "int \<Rightarrow> real"

text \<open>
  \<open>TripleHelix\<close>: \<open>sequences\<close> is \<open>char [3][100]\<close>, a function of the peptide number and
  the position. A register (\<open>short [4]\<close>) is a 4-tuple: leading, middle and trailing peptide
  and the offset. The grids \<open>[3][3][3][9]\<close> are functions of four indices. The counters
  \<open>numPep\<close> and \<open>numAA\<close> (\<open>short\<close>, between 1 and 3 and between 21 and 48 once a sample
  is loaded) are naturals; \<open>netCharge\<close> and \<open>totalCharge\<close> (\<open>short\<close>) are integers and
  \<open>XaaPos\<close> is an integer.
\<close>

type_synonym register = "nat \<times> nat \<times> nat \<times> nat"

type_synonym 'a grid = "nat \<Rightarrow> nat \<Rightarrow> nat \<Rightarrow> nat \<Rightarrow> 'a"

record TripleHelix =
  numPep :: nat
  numAA :: nat
  sequences :: "nat \<Rightarrow> nat \<Rightarrow> char"
  Nterm :: string
  Cterm :: string
  expTm :: real
  CCTm :: real
  HighTm :: real
  deviation :: real
  secTm :: real
  specificity :: real
  bestRegister :: register
  secRegister :: register
  CCRegister :: register
  netCharge :: "int grid"
  totalCharge :: "int grid"
  bestPropensity :: real
  bestPairwise :: real
  Propensity :: "real grid"
  PairWise :: "real grid"
  Tm :: "real grid"
  XaaPos :: int

definition grid_upd :: "'a grid \<Rightarrow> nat \<Rightarrow> nat \<Rightarrow> nat \<Rightarrow> nat \<Rightarrow> 'a \<Rightarrow> 'a grid" where
  "grid_upd g a b c d v =
     (\<lambda>a' b' c' d'. if a' = a \<and> b' = b \<and> c' = c \<and> d' = d then v else g a' b' c' d')"

text \<open>
  \<open>initializeAll\<close> (lines 172-205) sets every field but \<open>XaaPos\<close>, which keeps whatever
  value it had; that value is the argument here.
\<close>

definition initializeAll :: "int \<Rightarrow> TripleHelix" where
  "initializeAll xp =
     \<lparr>numPep = 0, numAA = 0, sequences = (\<lambda>a b. CHR ''.''), Nterm = ''initial'',
      Cterm = ''initial'', expTm = 0, CCTm = 0, HighTm = 0, deviation = 0, secTm = 0,
      specificity = 0, bestRegister = (0, 0, 0, 0), secRegister = (0, 0, 0, 0),
      CCRegister = (0, 0, 0, 0), netCharge = (\<lambda>a b c d. 0), totalCharge = (\<lambda>a b c d. 0),
      bestPropensity = 0, bestPairwise = 0, Propensity = (\<lambda>a b c d. 0),
      PairWise = (\<lambda>a b c d. 0), Tm = (\<lambda>a b c d. 0), XaaPos = xp\<rparr>"

text \<open>\<open>isXaa\<close>, \<open>isYaa\<close>, \<open>isGly\<close> (lines 207-223): \<open>abs (position + (3 - XaaPos)) % 3\<close>.\<close>

definition isXaa :: "TripleHelix \<Rightarrow> int \<Rightarrow> bool" where
  "isXaa h position = (\<bar>position + (3 - XaaPos h)\<bar> mod 3 = 0)"

definition isYaa :: "TripleHelix \<Rightarrow> int \<Rightarrow> bool" where
  "isYaa h position = (\<bar>position + (3 - XaaPos h)\<bar> mod 3 = 1)"

definition isGly :: "TripleHelix \<Rightarrow> int \<Rightarrow> bool" where
  "isGly h position = (\<bar>position + (3 - XaaPos h)\<bar> mod 3 = 2)"

section \<open>Phase detection: determine_reptition (main.cpp, lines 250-292)\<close>

text \<open>
  The loop counts the glycines of peptide 0 on the three tracks \<open>x % 3 = 0, 1, 2\<close>. The
  threshold is \<open>numAA / 3\<close>, a division of integers. The three tests run one after the
  other, so a later track that qualifies overwrites \<open>XaaPos\<close>. What the function prints is
  returned as a list of events: the warning line and the call of \<open>dissect\<close>.
\<close>

datatype event = Message string | Dissect

definition count_step :: "TripleHelix \<Rightarrow> nat \<Rightarrow> nat \<times> nat \<times> nat \<Rightarrow> nat \<times> nat \<times> nat" where
  "count_step h x = (\<lambda>(xCount, yCount, zCount).
     (let xCount = (if x mod 3 = 0 \<and> sequences h 0 x = CHR ''G'' then xCount + 1 else xCount);
          yCount = (if x mod 3 = 1 \<and> sequences h 0 x = CHR ''G'' then yCount + 1 else yCount);
          zCount = (if x mod 3 = 2 \<and> sequences h 0 x = CHR ''G'' then zCount + 1 else zCount)
      in (xCount, yCount, zCount)))"

definition gly_counts :: "TripleHelix \<Rightarrow> nat \<times> nat \<times> nat" where
  "gly_counts h = fold (count_step h) [0..<numAA h] (0, 0, 0)"

definition determine_reptition :: "TripleHelix \<Rightarrow> TripleHelix \<times> event list" where
  "determine_reptition h =
     (case gly_counts h of (xCount, yCount, zCount) \<Rightarrow>
        let goodPeptide = False;
            (goodPeptide, h) = (if xCount \<ge> numAA h div 3 then (True, h\<lparr>XaaPos := 1\<rparr>)
                                else (goodPeptide, h));
            (goodPeptide, h) = (if yCount \<ge> numAA h div 3 then (True, h\<lparr>XaaPos := 2\<rparr>)
                                else (goodPeptide, h));
            (goodPeptide, h) = (if zCount \<ge> numAA h div 3 then (True, h\<lparr>XaaPos := 0\<rparr>)
                                else (goodPeptide, h))
        in if \<not> goodPeptide
           then (h, [Message ''This peptide does not appear to have a Gly every third residue!'',
                     Dissect])
           else (h, []))"

text \<open>
  The number of glycines of peptide 0 on track \<open>k\<close>, written from the words of the
  specification: the positions \<open>x < numAA\<close> with \<open>x mod 3 = k\<close> that hold \<open>G\<close>.
\<close>

definition track_count :: "TripleHelix \<Rightarrow> nat \<Rightarrow> nat" where
  "track_count h k =
     length (filter (\<lambda>x. x mod 3 = k \<and> sequences h 0 x = CHR ''G'') [0..<numAA h])"

text \<open>
  A sample of 22 residues whose track 0 holds seven glycines (positions 0, 3, ..., 18;
  position 21 is a proline), with \<open>XaaPos = 5\<close> before the call.
\<close>

definition phase_example :: TripleHelix where
  "phase_example = (initializeAll 5)\<lparr>numPep := 1, numAA := 22,
      sequences := (\<lambda>a x. ''GPOGPOGPOGPOGPOGPOGPOP'' ! x)\<rparr>"

section \<open>The helix scorer: ScoreHelix (main.cpp, lines 873-1366)\<close>

text \<open>
  The loop over the offset \<open>d\<close> runs for \<open>d = 0\<close> only (line 920), so only \<open>case 0\<close> of the
  switch (lines 930-1012) runs: it copies the residues \<open>0..numAA-1\<close> of the peptides \<open>a\<close>,
  \<open>b\<close> and \<open>c\<close> and the fields \<open>numPep\<close>, \<open>Nterm\<close>, \<open>Cterm\<close>, \<open>XaaPos\<close> and \<open>numAA\<close> into
  \<open>trimmedHelix\<close>. Every later read of \<open>trimmedHelix\<close> is a read of one of these, so the
  model reads them from \<open>theHelix\<close>. The index of a residue in the tables is
  \<open>(short) letter - 64\<close>.
\<close>

definition resIndex :: "char \<Rightarrow> int" where
  "resIndex ch = int (of_char ch) - 64"

text \<open>Length (lines 1017-1027).\<close>

definition lengthBasis :: "parameterType \<Rightarrow> TripleHelix \<Rightarrow> real" where
  "lengthBasis parameters h =
     (if numAA h > 50 then A parameters + B parameters * 50 + C parameters * 50 * 50
      else A parameters + B parameters * real (numAA h)
           + C parameters * real (numAA h) * real (numAA h))"

text \<open>
  Termination, tyrosine and tryptophan capping, terminal hydrogen bonding
  (lines 1032-1062), applied to the propensity in the order of the source.
\<close>

definition termini :: "TripleHelix \<Rightarrow> nat \<Rightarrow> nat \<Rightarrow> nat \<Rightarrow> real \<Rightarrow> real" where
  "termini h a b c P =
     (let P = (if Nterm h = ''n'' then P - 1.8 else P);
          P = (if Cterm h = ''c'' then P - 1.8 else P);
          P = (if sequences h a 0 = CHR ''Y'' \<and> sequences h b 0 = CHR ''Y''
                  \<and> sequences h c 0 = CHR ''Y'' then P + 3 else P);
          P = (if sequences h a (numAA h - 1) = CHR ''Y'' \<and> sequences h b (numAA h - 1) = CHR ''Y''
                  \<and> sequences h c (numAA h - 1) = CHR ''Y'' then P + 3 else P);
          P = (if sequences h a 0 = CHR ''W'' \<and> sequences h b 0 = CHR ''W''
                  \<and> sequences h c 0 = CHR ''W'' then P + 3 else P);
          P = (if sequences h a (numAA h - 1) = CHR ''W'' \<and> sequences h b (numAA h - 1) = CHR ''W''
                  \<and> sequences h c (numAA h - 1) = CHR ''W'' then P + 3 else P);
          P = (if \<not> isXaa h 0 then P - 1.8 else P);
          P = (if \<not> isGly h (int (numAA h) - 1) then P - 1.8 else P)
      in P)"

text \<open>
  The loop over the residues (lines 1070-1126). For one residue, the charge counters
  (\<open>netCharge\<close>, \<open>totalCharge\<close>) change as in lines 1072-1081; the propensity changes as
  in lines 1106-1107 away from the tips and as in lines 1117-1118 at the tips.
\<close>

definition chargeStep :: "char \<Rightarrow> int \<times> int \<Rightarrow> int \<times> int" where
  "chargeStep ch = (\<lambda>(net, total).
     (let (net, total) = (if ch = CHR ''K'' \<or> ch = CHR ''R'' then (net + 1, total + 1)
                          else (net, total))
      in if ch = CHR ''E'' \<or> ch = CHR ''D'' then (net - 1, total + 1) else (net, total)))"

definition propFull :: "parameterType \<Rightarrow> TripleHelix \<Rightarrow> nat \<Rightarrow> char \<Rightarrow> real \<Rightarrow> real" where
  "propFull parameters h x ch P =
     (let P = (if isXaa h (int x) then P + propensityX parameters (resIndex ch) else P)
      in if isYaa h (int x) then P + propensityY parameters (resIndex ch) else P)"

definition propTip :: "parameterType \<Rightarrow> TripleHelix \<Rightarrow> nat \<Rightarrow> char \<Rightarrow> real \<Rightarrow> real" where
  "propTip parameters h x ch P =
     (let P = (if isXaa h (int x) then P + propensityX parameters (resIndex ch) / 3 else P)
      in if isYaa h (int x) then P + propensityY parameters (resIndex ch) / 3 else P)"

definition singleAA ::
  "parameterType \<Rightarrow> TripleHelix \<Rightarrow> nat \<Rightarrow> nat \<Rightarrow> nat \<Rightarrow> nat \<Rightarrow> int \<times> int \<times> real \<Rightarrow> int \<times> int \<times> real" where
  "singleAA parameters h a b c x = (\<lambda>(net, total, P).
     (let (net, total) = chargeStep (sequences h a x) (net, total);
          (net, total) = chargeStep (sequences h b x) (net, total);
          (net, total) = chargeStep (sequences h c x) (net, total);
          P = (if x > 2 \<and> int x < int (numAA h) - 2
               then propFull parameters h x (sequences h c x)
                      (propFull parameters h x (sequences h b x)
                         (propFull parameters h x (sequences h a x) P))
               else propTip parameters h x (sequences h c x)
                      (propTip parameters h x (sequences h b x)
                         (propTip parameters h x (sequences h a x) P)))
      in (net, total, P)))"

text \<open>
  Charge scoring (lines 1129-1132): \<open>abs (netCharge) - 6\<close> and \<open>3\<close> are integers, so the
  quotient is the integer quotient.
\<close>

definition chargeScoring :: "int \<Rightarrow> real \<Rightarrow> real" where
  "chargeScoring net P = (if \<bar>net\<bar> > 6 then P - real_of_int ((\<bar>net\<bar> - 6) div 3) else P)"

text \<open>
  The interaction threads (lines 1139-1222). \<open>fillThread\<close> is the loop that writes one
  entry of both arrays (\<open>double [20]\<close>, lists of 20 entries) for every Yaa position;
  \<open>axAt\<close> and \<open>latAt\<close> give the entries of the thread at position \<open>x\<close>. A sample has at
  most 48 residues, so at most 16 entries are written. \<open>stabilizing\<close> is the call
  \<open>PairWiseCalc (XinteractionThread, LinteractionThread, 0, numYaa, 9, 0, 0)\<close> on the pair
  of threads, and \<open>forceDestabilizing\<close> is the loop that adds every negative entry below
  \<open>numYaa\<close>.
\<close>

definition fillStep ::
  "TripleHelix \<Rightarrow> (nat \<Rightarrow> real) \<Rightarrow> (nat \<Rightarrow> real) \<Rightarrow> nat
     \<Rightarrow> real list \<times> real list \<times> nat \<Rightarrow> real list \<times> real list \<times> nat" where
  "fillStep h axAt latAt x = (\<lambda>(XT, LT, i).
     if isYaa h (int x) then (XT[i := axAt x], LT[i := latAt x], i + 1) else (XT, LT, i))"

definition fillThread ::
  "TripleHelix \<Rightarrow> (nat \<Rightarrow> real) \<Rightarrow> (nat \<Rightarrow> real)
     \<Rightarrow> real list \<times> real list \<Rightarrow> real list \<times> real list" where
  "fillThread h axAt latAt = (\<lambda>(XT, LT).
     (case fold (fillStep h axAt latAt) [0..<numAA h] (XT, LT, 0) of
        (XT, LT, i) \<Rightarrow> (XT, LT)))"

fun stabilizing :: "nat \<Rightarrow> real list \<times> real list \<Rightarrow> real" where
  "stabilizing numYaa (XT, LT) = PairWiseCalc XT LT 0 numYaa 9 0 0"

fun forceDestabilizing :: "nat \<Rightarrow> real list \<times> real list \<Rightarrow> real \<Rightarrow> real" where
  "forceDestabilizing numYaa (XT, LT) PW =
     fold (\<lambda>x PW. let PW = (if XT ! x < 0 then PW + XT ! x else PW)
                   in if LT ! x < 0 then PW + LT ! x else PW) [0..<numYaa] PW"

definition firstAxial :: "parameterType \<Rightarrow> TripleHelix \<Rightarrow> nat \<Rightarrow> nat \<Rightarrow> nat \<Rightarrow> real" where
  "firstAxial parameters h a b x =
     (if x + 2 < numAA h
      then axial parameters (resIndex (sequences h a x)) (resIndex (sequences h b (x + 2)))
      else 0)"

definition firstLateral :: "parameterType \<Rightarrow> TripleHelix \<Rightarrow> nat \<Rightarrow> nat \<Rightarrow> nat \<Rightarrow> real" where
  "firstLateral parameters h a b x =
     (if int x - 1 \<ge> 0
      then lateral parameters (resIndex (sequences h a x)) (resIndex (sequences h b (x - 1)))
      else 0)"

definition thirdAxial :: "parameterType \<Rightarrow> TripleHelix \<Rightarrow> nat \<Rightarrow> nat \<Rightarrow> nat \<Rightarrow> real" where
  "thirdAxial parameters h c a x =
     (if x + 5 < numAA h
      then axial parameters (resIndex (sequences h c x)) (resIndex (sequences h a (x + 5)))
      else 0)"

definition thirdLateral :: "parameterType \<Rightarrow> TripleHelix \<Rightarrow> nat \<Rightarrow> nat \<Rightarrow> nat \<Rightarrow> real" where
  "thirdLateral parameters h c a x =
     (if x + 2 < numAA h
      then lateral parameters (resIndex (sequences h c x)) (resIndex (sequences h a (x + 2)))
      else 0)"

text \<open>
  The local variables of \<open>ScoreHelix\<close> that live across the iterations of the loop over
  the registers, together with the helix that is being written.
\<close>

record ScoreState =
  theHelix :: TripleHelix
  XinteractionThread :: "real list"
  LinteractionThread :: "real list"
  maxTm :: real
  secondBestTm :: real
  bestReg :: register
  secondBestReg :: register

text \<open>
  Propensity, charge and pairwise score of one register (lines 1017-1227). The second
  and the third thread use the same tests and offsets as the first, on the peptides
  \<open>b, c\<close> and \<open>c, a\<close>, the third with the offsets \<open>+5\<close> and \<open>+2\<close>.
\<close>

definition scoreRegister :: "parameterType \<Rightarrow> register \<Rightarrow> ScoreState \<Rightarrow> ScoreState" where
  "scoreRegister parameters = (\<lambda>(a, b, c, d) s.
     (let h = theHelix s;
          numYaa = numAA h div 3;
          P = termini h a b c (lengthBasis parameters h);
          (net, total, P) = fold (singleAA parameters h a b c) [0..<numAA h]
                              (netCharge h a b c d, totalCharge h a b c d, P);
          P = chargeScoring net P;
          T = fillThread h (firstAxial parameters h a b) (firstLateral parameters h a b)
                (XinteractionThread s, LinteractionThread s);
          PW = stabilizing numYaa T;
          PW = forceDestabilizing numYaa T PW;
          T = fillThread h (firstAxial parameters h b c) (firstLateral parameters h b c) T;
          PW = PW + stabilizing numYaa T;
          PW = forceDestabilizing numYaa T PW;
          T = fillThread h (thirdAxial parameters h c a) (thirdLateral parameters h c a) T;
          PW = PW + stabilizing numYaa T;
          PW = forceDestabilizing numYaa T PW
      in s\<lparr>theHelix := h\<lparr>netCharge := grid_upd (netCharge h) a b c d net,
                          totalCharge := grid_upd (totalCharge h) a b c d total,
                          Propensity := grid_upd (Propensity h) a b c d P,
                          PairWise := grid_upd (PairWise h) a b c d PW,
                          Tm := grid_upd (Tm h) a b c d (P + PW)\<rparr>,
           XinteractionThread := fst T, LinteractionThread := snd T\<rparr>))"

text \<open>The best and the second best register (lines 1232-1256).\<close>

definition trackBest :: "register \<Rightarrow> ScoreState \<Rightarrow> ScoreState" where
  "trackBest = (\<lambda>(a, b, c, d) s.
     if Tm (theHelix s) a b c d \<ge> maxTm s
     then s\<lparr>secondBestTm := maxTm s, secondBestReg := bestReg s,
            maxTm := Tm (theHelix s) a b c d, bestReg := (a, b, c, d)\<rparr>
     else if Tm (theHelix s) a b c d \<ge> secondBestTm s
     then s\<lparr>secondBestTm := Tm (theHelix s) a b c d, secondBestReg := (a, b, c, d)\<rparr>
     else s)"

text \<open>
  The register of the correct composition (lines 1258-1296). For one peptide the offset
  \<open>CCRegister[3]\<close> is not written.
\<close>

definition trackCC :: "register \<Rightarrow> TripleHelix \<Rightarrow> TripleHelix" where
  "trackCC = (\<lambda>(a, b, c, d) h.
     (let h = (if numPep h = 1 \<and> Tm h a b c d \<ge> CCTm h
               then h\<lparr>CCTm := Tm h a b c d,
                      CCRegister := (a, b, c, snd (snd (snd (CCRegister h))))\<rparr>
               else h);
          h = (if numPep h = 2 \<and> (a \<noteq> b \<or> a \<noteq> c \<or> b \<noteq> c) \<and> Tm h a b c d \<ge> CCTm h
               then h\<lparr>CCTm := Tm h a b c d, CCRegister := (a, b, c, d)\<rparr>
               else h);
          h = (if numPep h = 3 \<and> (a \<noteq> b \<and> a \<noteq> c \<and> b \<noteq> c) \<and> Tm h a b c d \<ge> CCTm h
               then h\<lparr>CCTm := Tm h a b c d, CCRegister := (a, b, c, d)\<rparr>
               else h)
      in h))"

definition registerBody :: "parameterType \<Rightarrow> register \<Rightarrow> ScoreState \<Rightarrow> ScoreState" where
  "registerBody parameters r s =
     (let s = scoreRegister parameters r s;
          s = trackBest r s
      in s\<lparr>theHelix := trackCC r (theHelix s)\<rparr>)"

text \<open>The registers in the order of the four nested loops of line 920.\<close>

definition registers :: "nat \<Rightarrow> register list" where
  "registers n = [(a, b, c, d). a \<leftarrow> [0..<n], b \<leftarrow> [0..<n], c \<leftarrow> [0..<n], d \<leftarrow> [0..<1]]"

text \<open>
  The deviation (lines 1325-1361). The registers are compared on their first three
  entries. The argument \<open>bestTm\<close> is the local \<open>maxTm\<close> of the source.
\<close>

definition sameRegister :: "register \<Rightarrow> register \<Rightarrow> bool" where
  "sameRegister = (\<lambda>(a, b, c, d) (a', b', c', d'). a = a' \<and> b = b' \<and> c = c')"

definition setDeviation :: "real \<Rightarrow> TripleHelix \<Rightarrow> TripleHelix" where
  "setDeviation bestTm h =
     (if sameRegister (CCRegister h) (bestRegister h)
      then (if expTm h = - 10
            then (if bestTm \<le> 10 then h\<lparr>deviation := 0\<rparr> else h\<lparr>deviation := bestTm - 10\<rparr>)
            else h\<lparr>deviation := bestTm - expTm h\<rparr>)
      else (if expTm h = - 10
            then (let h = (if bestTm \<le> 10 then h\<lparr>deviation := 0\<rparr> else h)
                  in if bestTm > 10 then h\<lparr>deviation := bestTm - 10\<rparr> else h)
            else (let h = h\<lparr>deviation := CCTm h - expTm h\<rparr>
                  in if deviation h < 0
                     then h\<lparr>deviation := deviation h - 0.5 * \<bar>CCTm h - bestTm\<bar>\<rparr>
                     else h\<lparr>deviation := deviation h + 0.5 * \<bar>CCTm h - bestTm\<bar>\<rparr>)))"

text \<open>
  \<open>ScoreHelix\<close>: the three grids \<open>Propensity\<close>, \<open>PairWise\<close> and \<open>Tm\<close> are cleared (lines
  877-882; \<open>netCharge\<close> and \<open>totalCharge\<close> are not), the threads are cleared (lines
  884-890), the locals get their starting values (lines 898-917), the loop runs over
  the registers, and the results are moved into the helix (lines 1303-1315) before the
  deviation is set.
\<close>

definition startState :: "TripleHelix \<Rightarrow> ScoreState" where
  "startState h =
     \<lparr>theHelix = h\<lparr>Propensity := (\<lambda>a b c d. 0), PairWise := (\<lambda>a b c d. 0),
                    Tm := (\<lambda>a b c d. 0), CCTm := - 1500, CCRegister := (7, 7, 7, 12)\<rparr>,
      XinteractionThread = replicate 20 0, LinteractionThread = replicate 20 0,
      maxTm = - 1000, secondBestTm = - 2000,
      bestReg = (6, 6, 6, 11), secondBestReg = (5, 5, 5, 10)\<rparr>"

definition moveValues :: "ScoreState \<Rightarrow> TripleHelix" where
  "moveValues s =
     (let h = theHelix s;
          h = h\<lparr>HighTm := maxTm s, bestRegister := bestReg s\<rparr>;
          h = (case bestRegister h of (a, b, c, d) \<Rightarrow>
                 h\<lparr>bestPropensity := Propensity h a b c d, bestPairwise := PairWise h a b c d\<rparr>)
      in h\<lparr>secTm := secondBestTm s, secRegister := secondBestReg s,
           specificity := maxTm s - secondBestTm s\<rparr>)"

definition ScoreHelix :: "parameterType \<Rightarrow> TripleHelix \<Rightarrow> TripleHelix" where
  "ScoreHelix parameters h =
     (let s = fold (registerBody parameters) (registers (numPep h)) (startState h)
      in setDeviation (maxTm s) (moveValues s))"

section \<open>Scoring the library and the calibration loop (main.cpp, lines 1368-1376 and 1723-2182)\<close>

text \<open>
  \<open>ScoreLibrary\<close> scores the helices \<open>start..stop-1\<close> of the library in place. The
  library (\<open>TripleHelix Library[500]\<close>) is a list.
\<close>

definition ScoreLibrary :: "nat \<Rightarrow> nat \<Rightarrow> parameterType \<Rightarrow> TripleHelix list \<Rightarrow> TripleHelix list" where
  "ScoreLibrary start stop parameters Lib =
     fold (\<lambda>n Lib. Lib[n := ScoreHelix parameters (Lib ! n)]) [start..<stop] Lib"

text \<open>
  The variables of \<open>main\<close> that the calibration loop reads and writes. The constants
  are those of lines 1511-1517.
\<close>

record Calibration =
  parameters :: parameterType
  Library :: "TripleHelix list"
  sumSquaredDev :: real
  NewSumSquaredDev :: real
  improved :: bool
  improvedRound :: bool

definition delta :: real where
  "delta = 0.1"

definition maxRounds :: nat where
  "maxRounds = 25"

definition maxDev :: real where
  "maxDev = 2.0"

text \<open>
  One rescoring of the library and the test that follows it (for example lines
  1934-1953). The two threads score the two halves of the library, which do not
  overlap, and are joined before the sum is taken; the model runs one half after the
  other. The new sum replaces the tracked sum only when it is strictly smaller.
\<close>

definition rescore :: "nat \<Rightarrow> Calibration \<Rightarrow> Calibration" where
  "rescore TotalHelices s =
     (let s = s\<lparr>Library := ScoreLibrary (TotalHelices div 2) TotalHelices (parameters s)
                               (ScoreLibrary 0 (TotalHelices div 2) (parameters s) (Library s))\<rparr>;
          s = s\<lparr>NewSumSquaredDev :=
                  fold (\<lambda>n New. New + deviation (Library s ! n) * deviation (Library s ! n))
                    [0..<TotalHelices] (NewSumSquaredDev s)\<rparr>
      in if NewSumSquaredDev s < sumSquaredDev s
         then s\<lparr>sumSquaredDev := NewSumSquaredDev s, improved := True, improvedRound := True\<rparr>
         else s)"

text \<open>
  The trial of one scalar (lines 1930-1986 for an Xaa propensity; the blocks for the Yaa
  propensities and for the cells of the axial and lateral tables are copies of it).
  \<open>get\<close> reads the scalar, \<open>upd\<close> changes it and \<open>ref\<close> reads its reference value.
  \<open>trialDown\<close> is the first test (the scalar less \<open>delta\<close>, lines 1930-1954), \<open>trialUp\<close>
  the second (the scalar plus \<open>delta\<close> twice, lines 1957-1979), and \<open>tryScalar\<close> runs the
  second only when the first did not improve, and takes \<open>delta\<close> off again when neither
  did (lines 1981-1986).
\<close>

definition trialDown ::
  "(parameterType \<Rightarrow> real) \<Rightarrow> ((real \<Rightarrow> real) \<Rightarrow> parameterType \<Rightarrow> parameterType)
     \<Rightarrow> (parameterType \<Rightarrow> real) \<Rightarrow> nat \<Rightarrow> Calibration \<Rightarrow> Calibration" where
  "trialDown get upd ref TotalHelices s =
     (let s = s\<lparr>parameters := upd (\<lambda>v. v - delta) (parameters s), NewSumSquaredDev := 0\<rparr>
      in if get (parameters s) \<ge> ref (parameters s) - maxDev
         then rescore TotalHelices s else s)"

definition trialUp ::
  "(parameterType \<Rightarrow> real) \<Rightarrow> ((real \<Rightarrow> real) \<Rightarrow> parameterType \<Rightarrow> parameterType)
     \<Rightarrow> (parameterType \<Rightarrow> real) \<Rightarrow> nat \<Rightarrow> Calibration \<Rightarrow> Calibration" where
  "trialUp get upd ref TotalHelices s =
     (let s = s\<lparr>parameters := upd (\<lambda>v. v + delta) (upd (\<lambda>v. v + delta) (parameters s)),
                NewSumSquaredDev := 0\<rparr>
      in if get (parameters s) \<le> ref (parameters s) + maxDev
         then rescore TotalHelices s else s)"

definition tryScalar ::
  "(parameterType \<Rightarrow> real) \<Rightarrow> ((real \<Rightarrow> real) \<Rightarrow> parameterType \<Rightarrow> parameterType)
     \<Rightarrow> (parameterType \<Rightarrow> real) \<Rightarrow> nat \<Rightarrow> Calibration \<Rightarrow> Calibration" where
  "tryScalar get upd ref TotalHelices s =
     (let s = trialDown get upd ref TotalHelices s;
          s = (if \<not> improved s then trialUp get upd ref TotalHelices s else s)
      in if \<not> improved s then s\<lparr>parameters := upd (\<lambda>v. v - delta) (parameters s)\<rparr> else s)"

definition updPropensityX :: "int \<Rightarrow> (real \<Rightarrow> real) \<Rightarrow> parameterType \<Rightarrow> parameterType" where
  "updPropensityX x f p = p\<lparr>propensityX := (propensityX p)(x := f (propensityX p x))\<rparr>"

definition updPropensityY :: "int \<Rightarrow> (real \<Rightarrow> real) \<Rightarrow> parameterType \<Rightarrow> parameterType" where
  "updPropensityY x f p = p\<lparr>propensityY := (propensityY p)(x := f (propensityY p x))\<rparr>"

definition updAxial :: "int \<Rightarrow> int \<Rightarrow> (real \<Rightarrow> real) \<Rightarrow> parameterType \<Rightarrow> parameterType" where
  "updAxial x y f p = p\<lparr>axial := (axial p)(x := (axial p x)(y := f (axial p x y)))\<rparr>"

definition updLateral :: "int \<Rightarrow> int \<Rightarrow> (real \<Rightarrow> real) \<Rightarrow> parameterType \<Rightarrow> parameterType" where
  "updLateral x y f p = p\<lparr>lateral := (lateral p)(x := (lateral p x)(y := f (lateral p x y)))\<rparr>"

definition tryPropensityX :: "int \<Rightarrow> nat \<Rightarrow> Calibration \<Rightarrow> Calibration" where
  "tryPropensityX x =
     tryScalar (\<lambda>p. propensityX p x) (updPropensityX x) (\<lambda>p. exPropensityX p x)"

definition tryPropensityY :: "int \<Rightarrow> nat \<Rightarrow> Calibration \<Rightarrow> Calibration" where
  "tryPropensityY x =
     tryScalar (\<lambda>p. propensityY p x) (updPropensityY x) (\<lambda>p. exPropensityY p x)"

definition tryAxial :: "int \<Rightarrow> int \<Rightarrow> nat \<Rightarrow> Calibration \<Rightarrow> Calibration" where
  "tryAxial x y = tryScalar (\<lambda>p. axial p x y) (updAxial x y) (\<lambda>p. exAxial p x y)"

definition tryLateral :: "int \<Rightarrow> int \<Rightarrow> nat \<Rightarrow> Calibration \<Rightarrow> Calibration" where
  "tryLateral x y = tryScalar (\<lambda>p. lateral p x y) (updLateral x y) (\<lambda>p. exLateral p x y)"

text \<open>
  One round (lines 1926-2174): for every \<open>x\<close> the Xaa propensity, the Yaa propensity and,
  for every \<open>y\<close>, the axial and the lateral cell, each tried only when it is marked for
  optimization; \<open>improved\<close> is cleared after every block.
\<close>

definition cellStep :: "nat \<Rightarrow> int \<Rightarrow> int \<Rightarrow> Calibration \<Rightarrow> Calibration" where
  "cellStep TotalHelices x y s =
     (let s = (if optAxial (parameters s) x y then tryAxial x y TotalHelices s else s);
          s = s\<lparr>improved := False\<rparr>;
          s = (if optLat (parameters s) x y then tryLateral x y TotalHelices s else s)
      in s\<lparr>improved := False\<rparr>)"

definition residueStep :: "nat \<Rightarrow> int \<Rightarrow> Calibration \<Rightarrow> Calibration" where
  "residueStep TotalHelices x s =
     (let s = (if optPropX (parameters s) x then tryPropensityX x TotalHelices s else s);
          s = s\<lparr>improved := False\<rparr>;
          s = (if optPropY (parameters s) x then tryPropensityY x TotalHelices s else s);
          s = s\<lparr>improved := False\<rparr>
      in fold (cellStep TotalHelices x) [0..26] s)"

definition optimizationRound :: "nat \<Rightarrow> Calibration \<Rightarrow> Calibration" where
  "optimizationRound TotalHelices s = fold (residueStep TotalHelices) [0..26] s"

text \<open>
  The loop \<open>while (not done)\<close> (lines 1796-2182), with the locals \<open>round\<close> (here \<open>roundNo\<close>) and \<open>done\<close>
  as arguments. In the source \<open>done\<close> is set to true just before the loop (line 1783), so
  as the program stands the loop body does not run; \<open>optimization\<close> is the loop entered
  that way. The statements below hold for every starting value of \<open>done\<close>.
\<close>

function optimize :: "nat \<Rightarrow> nat \<Rightarrow> bool \<Rightarrow> Calibration \<Rightarrow> Calibration" where
  "optimize TotalHelices roundNo done s =
     (if done then s
      else
        let s = optimizationRound TotalHelices s;
            done = (\<not> improvedRound s);
            s = s\<lparr>improved := False, improvedRound := False\<rparr>;
            roundNo = roundNo + 1;
            done = (done \<or> roundNo \<ge> maxRounds)
        in optimize TotalHelices roundNo done s)"
  by pat_completeness auto
termination
  by (relation "measure (\<lambda>(TotalHelices, roundNo, done, s).
        if done then 0 else Suc (maxRounds - roundNo))") auto

definition optimization :: "nat \<Rightarrow> Calibration \<Rightarrow> Calibration" where
  "optimization TotalHelices s =
     (let s = s\<lparr>NewSumSquaredDev := 0, improved := False, improvedRound := False\<rparr>
      in optimize TotalHelices 0 True s)"

section \<open>Closed forms for the statements about the scorer\<close>

text \<open>
  The charge of one residue and the sums over the residues of the three peptides of a
  register, written from the words of the specification: \<open>+1\<close> for Lys and Arg, \<open>-1\<close>
  for Glu and Asp in the net charge, \<open>+1\<close> for any of the four in the total charge.
\<close>

definition residueCharge :: "char \<Rightarrow> int" where
  "residueCharge ch =
     (if ch = CHR ''K'' \<or> ch = CHR ''R'' then 1
      else if ch = CHR ''E'' \<or> ch = CHR ''D'' then - 1 else 0)"

definition residueCharged :: "char \<Rightarrow> int" where
  "residueCharged ch =
     (if ch = CHR ''K'' \<or> ch = CHR ''R'' \<or> ch = CHR ''E'' \<or> ch = CHR ''D'' then 1 else 0)"

definition netChargeSum :: "TripleHelix \<Rightarrow> nat \<Rightarrow> nat \<Rightarrow> nat \<Rightarrow> int" where
  "netChargeSum h a b c =
     (\<Sum>x\<leftarrow>[0..<numAA h]. residueCharge (sequences h a x) + residueCharge (sequences h b x)
                             + residueCharge (sequences h c x))"

definition totalChargeSum :: "TripleHelix \<Rightarrow> nat \<Rightarrow> nat \<Rightarrow> nat \<Rightarrow> int" where
  "totalChargeSum h a b c =
     (\<Sum>x\<leftarrow>[0..<numAA h]. residueCharged (sequences h a x) + residueCharged (sequences h b x)
                             + residueCharged (sequences h c x))"

text \<open>
  The propensity of the residue \<open>ch\<close> at position \<open>x\<close>: the Xaa value at an Xaa position,
  the Yaa value at a Yaa position, nothing at a Gly position; \<open>positionValue\<close> adds the
  three peptides of the register.
\<close>

definition roleValue :: "parameterType \<Rightarrow> TripleHelix \<Rightarrow> nat \<Rightarrow> char \<Rightarrow> real" where
  "roleValue p h x ch =
     (if isXaa h (int x) then propensityX p (resIndex ch)
      else if isYaa h (int x) then propensityY p (resIndex ch) else 0)"

definition positionValue :: "parameterType \<Rightarrow> TripleHelix \<Rightarrow> nat \<Rightarrow> nat \<Rightarrow> nat \<Rightarrow> nat \<Rightarrow> real" where
  "positionValue p h a b c x =
     roleValue p h x (sequences h a x) + roleValue p h x (sequences h b x)
       + roleValue p h x (sequences h c x)"

text \<open>
  The sum of the propensities as the code forms it: the positions \<open>3..numAA-3\<close> count in
  full, the positions 0, 1, 2 and the last two positions \<open>numAA-2\<close>, \<open>numAA-1\<close> count for
  one third.
\<close>

definition propensitySum :: "parameterType \<Rightarrow> TripleHelix \<Rightarrow> nat \<Rightarrow> nat \<Rightarrow> nat \<Rightarrow> real" where
  "propensitySum p h a b c =
     (\<Sum>x\<leftarrow>[0..<numAA h]. if 2 < x \<and> x + 2 < numAA h then positionValue p h a b c x
                             else positionValue p h a b c x / 3)"

text \<open>
  The sum of the propensities as claim C6 words it: the three positions at either end
  count for one third, every other position counts in full.
\<close>

definition claimedPropensitySum :: "parameterType \<Rightarrow> TripleHelix \<Rightarrow> nat \<Rightarrow> nat \<Rightarrow> nat \<Rightarrow> real" where
  "claimedPropensitySum p h a b c =
     (\<Sum>x\<leftarrow>[0..<numAA h]. if 2 < x \<and> x + 3 < numAA h then positionValue p h a b c x
                             else positionValue p h a b c x / 3)"

text \<open>
  The propensity that the loop body stores for a register, given the net charge
  \<open>net0\<close> that the grid holds for that register before the loop over the residues.
\<close>

definition registerPropensity ::
  "parameterType \<Rightarrow> TripleHelix \<Rightarrow> nat \<Rightarrow> nat \<Rightarrow> nat \<Rightarrow> int \<Rightarrow> real" where
  "registerPropensity p h a b c net0 =
     chargeScoring (net0 + netChargeSum h a b c)
       (termini h a b c (lengthBasis p h) + propensitySum p h a b c)"

text \<open>
  The composition filter of lines 1258-1296: no filter for one peptide, not all three
  positions the same peptide for two peptides, three different peptides for three.
\<close>

definition compositionAllowed :: "nat \<Rightarrow> nat \<Rightarrow> nat \<Rightarrow> nat \<Rightarrow> bool" where
  "compositionAllowed n a b c =
     (n = 1 \<or> n = 2 \<and> (a \<noteq> b \<or> a \<noteq> c \<or> b \<noteq> c) \<or> n = 3 \<and> (a \<noteq> b \<and> a \<noteq> c \<and> b \<noteq> c))"

text \<open>The entry of a grid at a register.\<close>

definition entry :: "'a grid \<Rightarrow> register \<Rightarrow> 'a" where
  "entry g = (\<lambda>(a, b, c, d). g a b c d)"

section \<open>Concrete samples and parameters\<close>

text \<open>
  A parameter set in which everything is zero, and one in which only the Xaa propensity
  of proline (index 16) and the Yaa propensity of hydroxyproline (\<open>O\<close>, index 15) are 1.
\<close>

definition zero_parameters :: parameterType where
  "zero_parameters =
     \<lparr>axial = (\<lambda>i j. 0), lateral = (\<lambda>i j. 0), propensityX = (\<lambda>i. 0),
      propensityY = (\<lambda>i. 0), A = 0, B = 0, C = 0, optPropX = (\<lambda>i. False),
      optPropY = (\<lambda>i. False), optAxial = (\<lambda>i j. False), optLat = (\<lambda>i j. False),
      exAxial = (\<lambda>i j. 0), exLateral = (\<lambda>i j. 0), exPropensityX = (\<lambda>i. 0),
      exPropensityY = (\<lambda>i. 0)\<rparr>"

definition example_parameters :: parameterType where
  "example_parameters = zero_parameters
     \<lparr>propensityX := (\<lambda>i. if i = 16 then 1 else 0),
      propensityY := (\<lambda>i. if i = 15 then 1 else 0),
      optPropX := (\<lambda>i. i = 16),
      exPropensityX := (\<lambda>i. if i = 16 then 1 else 0),
      exPropensityY := (\<lambda>i. if i = 15 then 1 else 0)\<rparr>"

text \<open>
  A homotrimer of 21 residues, \<open>(POG)7\<close>, acetylated and amidated, with the phase that
  \<open>determine_reptition\<close> finds for it (\<open>XaaPos = 0\<close>) and an experimental Tm of 30.
\<close>

definition homotrimer_example :: TripleHelix where
  "homotrimer_example = (initializeAll 0)\<lparr>numPep := 1, numAA := 21,
      Nterm := ''Ac'', Cterm := ''Am'', expTm := 30,
      sequences := (\<lambda>a x. ''POGPOGPOGPOGPOGPOGPOG'' ! x)\<rparr>"

text \<open>
  The state of the calibration after the first scoring of a library that holds this one
  helix: the deviation is \<open>36 - 30\<close>, the sum of squares is 36.
\<close>

definition calibration_example :: Calibration where
  "calibration_example =
     \<lparr>parameters = example_parameters, Library = [homotrimer_example],
      sumSquaredDev = 36, NewSumSquaredDev = 0, improved = False, improvedRound = False\<rparr>"

text \<open>
  Two peptides of 21 residues with three and with two lysines, acetylated and amidated,
  \<open>XaaPos = 0\<close>, with the experimental Tm \<open>-10\<close> ("no transition observed").
\<close>

definition heterotrimer_example :: TripleHelix where
  "heterotrimer_example = (initializeAll 0)\<lparr>numPep := 2, numAA := 21,
      Nterm := ''Ac'', Cterm := ''Am'', expTm := - 10,
      sequences := (\<lambda>a x. (if a = 0 then ''PKGPKGPKGPOGPOGPOGPOG''
                              else ''PKGPKGPOGPOGPOGPOGPOG'') ! x)\<rparr>"

text \<open>A homotrimer of the second of these peptides (two lysines), experimental Tm 30.\<close>

definition charged_example :: TripleHelix where
  "charged_example = (initializeAll 0)\<lparr>numPep := 1, numAA := 21,
      Nterm := ''Ac'', Cterm := ''Am'', expTm := 30,
      sequences := (\<lambda>a x. ''PKGPKGPOGPOGPOGPOGPOG'' ! x)\<rparr>"

text \<open>The results of a scoring that the statements about the samples look at.\<close>

definition scoreSummary ::
  "TripleHelix \<Rightarrow> (real \<times> register) \<times> (real \<times> register) \<times> (real \<times> register) \<times> real \<times> real" where
  "scoreSummary h =
     ((HighTm h, bestRegister h), (secTm h, secRegister h), (CCTm h, CCRegister h),
      deviation h, specificity h)"

definition gridSummary :: "TripleHelix \<Rightarrow> register \<Rightarrow> int \<times> int \<times> real \<times> real \<times> real" where
  "gridSummary h = (\<lambda>(a, b, c, d).
     (netCharge h a b c d, totalCharge h a b c d, Propensity h a b c d, PairWise h a b c d,
      Tm h a b c d))"

definition registerSummary ::
  "TripleHelix \<Rightarrow> register list
     \<Rightarrow> ((real \<times> register) \<times> (real \<times> register) \<times> (real \<times> register) \<times> real \<times> real)
         \<times> (int \<times> int \<times> real \<times> real \<times> real) list" where
  "registerSummary h rs = (scoreSummary h, map (gridSummary h) rs)"

text \<open>
  Two peptides with the same sequence \<open>(POG)7\<close>, and the values of the scan that the
  statement about the tie-break looks at.
\<close>

definition twin_example :: TripleHelix where
  "twin_example = (initializeAll 0)\<lparr>numPep := 2, numAA := 21,
      Nterm := ''Ac'', Cterm := ''Am'', expTm := 30,
      sequences := (\<lambda>a x. ''POGPOGPOGPOGPOGPOGPOG'' ! x)\<rparr>"

definition scanSummary ::
  "ScoreState \<Rightarrow> register \<Rightarrow> (real \<times> register) \<times> (real \<times> register) \<times> (real \<times> register) \<times> nat \<times> real" where
  "scanSummary s = (\<lambda>(a, b, c, d).
     ((maxTm s, bestReg s), (secondBestTm s, secondBestReg s),
      (CCTm (theHelix s), CCRegister (theHelix s)), numPep (theHelix s),
      Tm (theHelix s) a b c d))"

section \<open>Properties of the interaction selector\<close>

text \<open>
  Claim C1. The claim says that \<open>PairWiseCalc axial lateral 0 lastPair 9 0 0\<close> is the
  largest sum over the admissible assignments of a state to every site \<open>0..lastPair\<close>.
  The code returns something else. At the last site the block for "no pair" returns at
  once whenever the previous state is not "no pair", so the values of the last site are
  never tried: for one site with axial value 5 and lateral value 3 the code returns 0,
  and the largest admissible sum is 5. And \<open>currentPWSum\<close> still holds what the lateral
  block added when the axial block runs: for two sites with axial values 2, 0 and
  lateral values 3, 0 the code returns 5, and the largest admissible sum is 3. The same
  happens on threads as \<open>ScoreHelix\<close> passes them (20 entries, \<open>lastPair = 7\<close> for 21
  residues): with 2 and 3 at the first site and zeros elsewhere the code returns 5.
\<close>

theorem PairWiseCalc_misses_claimed_maximum:
  "PairWiseCalc [5] [3] 0 0 9 0 0 = 0 \<and>
   claimed_maximum [5] [3] 0 = 5 \<and>
   PairWiseCalc [2, 0] [3, 0] 0 1 9 0 0 = 5 \<and>
   claimed_maximum [2, 0] [3, 0] 1 = 3 \<and>
   PairWiseCalc (2 # replicate 19 0) (3 # replicate 19 0) 0 7 9 0 0 = 5"
  by code_simp

text \<open>
  Claim C3. The claim says that for a single site the result is the largest of 0,
  \<open>axial[0]\<close> and \<open>lateral[0]\<close>. With one site (\<open>lastPair = 0\<close>) the first call is at the
  last site with the previous state 9, so the block for "no pair" returns
  \<open>BestPWTotal = 0\<close>: the result is 0 whatever the two arrays hold, and it differs from
  the claimed value for the axial value 5 and the lateral value 3.
\<close>

theorem PairWiseCalc_single_site:
  "PairWiseCalc XPW LPW 0 0 9 0 0 = 0 \<and>
   PairWiseCalc [5] [3] 0 0 9 0 0 \<noteq> max 0 (max 5 3)"
  by (simp add: PairWiseCalc.simps)

section \<open>Properties of phase detection\<close>

lemma fold_count_step:
  "fold (count_step h) xs (p, q, r) =
     (p + length (filter (\<lambda>x. x mod 3 = 0 \<and> sequences h 0 x = CHR ''G'') xs),
      q + length (filter (\<lambda>x. x mod 3 = 1 \<and> sequences h 0 x = CHR ''G'') xs),
      r + length (filter (\<lambda>x. x mod 3 = 2 \<and> sequences h 0 x = CHR ''G'') xs))"
  by (induction xs arbitrary: p q r) (simp_all add: count_step_def)

lemma gly_counts_track:
  "gly_counts h = (track_count h 0, track_count h 1, track_count h 2)"
  by (simp add: gly_counts_def track_count_def fold_count_step)

text \<open>
  Claim C4, as amended. The threshold of the code is the integer quotient \<open>numAA div 3\<close>
  (rounded down), not the quotient rounded up. Track 2 is selected (\<open>XaaPos = 0\<close>) when
  it holds at least \<open>numAA div 3\<close> glycines; otherwise track 1 (\<open>XaaPos = 2\<close>) when it
  does; otherwise track 0 (\<open>XaaPos = 1\<close>) when it does; and when no track does, the
  helix is returned unchanged, so \<open>XaaPos\<close> keeps its prior value, and the warning is
  printed: the sample is flagged, not rejected.
\<close>

theorem determine_reptition_threshold:
  "determine_reptition h =
     (if numAA h div 3 \<le> track_count h 2 then (h\<lparr>XaaPos := 0\<rparr>, [])
      else if numAA h div 3 \<le> track_count h 1 then (h\<lparr>XaaPos := 2\<rparr>, [])
      else if numAA h div 3 \<le> track_count h 0 then (h\<lparr>XaaPos := 1\<rparr>, [])
      else (h, [Message ''This peptide does not appear to have a Gly every third residue!'',
                Dissect]))"
  by (simp add: determine_reptition_def gly_counts_track Let_def)

text \<open>
  Claim C4 as stated fails: in \<open>phase_example\<close> (22 residues) track 0 holds 7 glycines,
  fewer than 22 / 3 rounded up, which is 8; the code selects it all the same
  (\<open>XaaPos\<close> goes from 5 to 1) and prints no warning.
\<close>

theorem determine_reptition_ceiling_counterexample:
  "XaaPos phase_example = 5 \<and>
   XaaPos (fst (determine_reptition phase_example)) = 1 \<and>
   snd (determine_reptition phase_example) = [] \<and>
   track_count phase_example 0 = 7 \<and>
   \<not> (nat \<lceil>real (numAA phase_example) / 3\<rceil> \<le> track_count phase_example 0)"
  by code_simp

section \<open>Properties of the helix scorer\<close>

lemma grid_upd_same [simp]: "grid_upd g a b c d v a b c d = v"
  by (simp add: grid_upd_def)

lemma grid_upd_other [simp]:
  "(a', b', c', d') \<noteq> (a, b, c, d) \<Longrightarrow> grid_upd g a b c d v a' b' c' d' = g a' b' c' d'"
  by (auto simp add: grid_upd_def)

lemma scoreRegister_static [simp]:
  "numPep (theHelix (scoreRegister p r s)) = numPep (theHelix s)"
  "numAA (theHelix (scoreRegister p r s)) = numAA (theHelix s)"
  "sequences (theHelix (scoreRegister p r s)) = sequences (theHelix s)"
  "Nterm (theHelix (scoreRegister p r s)) = Nterm (theHelix s)"
  "Cterm (theHelix (scoreRegister p r s)) = Cterm (theHelix s)"
  "XaaPos (theHelix (scoreRegister p r s)) = XaaPos (theHelix s)"
  "expTm (theHelix (scoreRegister p r s)) = expTm (theHelix s)"
  "CCTm (theHelix (scoreRegister p r s)) = CCTm (theHelix s)"
  "CCRegister (theHelix (scoreRegister p r s)) = CCRegister (theHelix s)"
  "maxTm (scoreRegister p r s) = maxTm s"
  "secondBestTm (scoreRegister p r s) = secondBestTm s"
  "bestReg (scoreRegister p r s) = bestReg s"
  "secondBestReg (scoreRegister p r s) = secondBestReg s"
  by (simp_all add: scoreRegister_def Let_def case_prod_beta)

lemma trackBest_helix [simp]: "theHelix (trackBest r s) = theHelix s"
  by (simp add: trackBest_def case_prod_beta)

lemma trackCC_static [simp]:
  "numPep (trackCC r h) = numPep h"
  "numAA (trackCC r h) = numAA h"
  "sequences (trackCC r h) = sequences h"
  "Nterm (trackCC r h) = Nterm h"
  "Cterm (trackCC r h) = Cterm h"
  "XaaPos (trackCC r h) = XaaPos h"
  "expTm (trackCC r h) = expTm h"
  "netCharge (trackCC r h) = netCharge h"
  "totalCharge (trackCC r h) = totalCharge h"
  "Propensity (trackCC r h) = Propensity h"
  "PairWise (trackCC r h) = PairWise h"
  "Tm (trackCC r h) = Tm h"
  by (simp_all add: trackCC_def Let_def case_prod_beta)

lemma registerBody_static [simp]:
  "numPep (theHelix (registerBody p r s)) = numPep (theHelix s)"
  "numAA (theHelix (registerBody p r s)) = numAA (theHelix s)"
  "sequences (theHelix (registerBody p r s)) = sequences (theHelix s)"
  "Nterm (theHelix (registerBody p r s)) = Nterm (theHelix s)"
  "Cterm (theHelix (registerBody p r s)) = Cterm (theHelix s)"
  "XaaPos (theHelix (registerBody p r s)) = XaaPos (theHelix s)"
  "expTm (theHelix (registerBody p r s)) = expTm (theHelix s)"
  by (simp_all add: registerBody_def Let_def)

lemma fold_registerBody_static [simp]:
  "numPep (theHelix (fold (registerBody p) rs s)) = numPep (theHelix s)"
  "numAA (theHelix (fold (registerBody p) rs s)) = numAA (theHelix s)"
  "sequences (theHelix (fold (registerBody p) rs s)) = sequences (theHelix s)"
  "Nterm (theHelix (fold (registerBody p) rs s)) = Nterm (theHelix s)"
  "Cterm (theHelix (fold (registerBody p) rs s)) = Cterm (theHelix s)"
  "XaaPos (theHelix (fold (registerBody p) rs s)) = XaaPos (theHelix s)"
  "expTm (theHelix (fold (registerBody p) rs s)) = expTm (theHelix s)"
  by (induction rs arbitrary: s; simp)+

lemma moveValues_fields [simp]:
  "numPep (moveValues s) = numPep (theHelix s)"
  "numAA (moveValues s) = numAA (theHelix s)"
  "sequences (moveValues s) = sequences (theHelix s)"
  "Nterm (moveValues s) = Nterm (theHelix s)"
  "Cterm (moveValues s) = Cterm (theHelix s)"
  "XaaPos (moveValues s) = XaaPos (theHelix s)"
  "expTm (moveValues s) = expTm (theHelix s)"
  "CCTm (moveValues s) = CCTm (theHelix s)"
  "CCRegister (moveValues s) = CCRegister (theHelix s)"
  "netCharge (moveValues s) = netCharge (theHelix s)"
  "totalCharge (moveValues s) = totalCharge (theHelix s)"
  "Propensity (moveValues s) = Propensity (theHelix s)"
  "PairWise (moveValues s) = PairWise (theHelix s)"
  "Tm (moveValues s) = Tm (theHelix s)"
  "HighTm (moveValues s) = maxTm s"
  "bestRegister (moveValues s) = bestReg s"
  "secTm (moveValues s) = secondBestTm s"
  "secRegister (moveValues s) = secondBestReg s"
  "specificity (moveValues s) = maxTm s - secondBestTm s"
  by (simp_all add: moveValues_def Let_def case_prod_beta)

lemma setDeviation_fields [simp]:
  "numPep (setDeviation m h) = numPep h"
  "numAA (setDeviation m h) = numAA h"
  "sequences (setDeviation m h) = sequences h"
  "Nterm (setDeviation m h) = Nterm h"
  "Cterm (setDeviation m h) = Cterm h"
  "XaaPos (setDeviation m h) = XaaPos h"
  "expTm (setDeviation m h) = expTm h"
  "CCTm (setDeviation m h) = CCTm h"
  "CCRegister (setDeviation m h) = CCRegister h"
  "netCharge (setDeviation m h) = netCharge h"
  "totalCharge (setDeviation m h) = totalCharge h"
  "Propensity (setDeviation m h) = Propensity h"
  "PairWise (setDeviation m h) = PairWise h"
  "Tm (setDeviation m h) = Tm h"
  "HighTm (setDeviation m h) = HighTm h"
  "bestRegister (setDeviation m h) = bestRegister h"
  "secTm (setDeviation m h) = secTm h"
  "secRegister (setDeviation m h) = secRegister h"
  "specificity (setDeviation m h) = specificity h"
  by (simp_all add: setDeviation_def Let_def)

lemma startState_fields [simp]:
  "numPep (theHelix (startState h)) = numPep h"
  "numAA (theHelix (startState h)) = numAA h"
  "sequences (theHelix (startState h)) = sequences h"
  "Nterm (theHelix (startState h)) = Nterm h"
  "Cterm (theHelix (startState h)) = Cterm h"
  "XaaPos (theHelix (startState h)) = XaaPos h"
  "expTm (theHelix (startState h)) = expTm h"
  "netCharge (theHelix (startState h)) = netCharge h"
  "totalCharge (theHelix (startState h)) = totalCharge h"
  "CCTm (theHelix (startState h)) = - 1500"
  "CCRegister (theHelix (startState h)) = (7, 7, 7, 12)"
  "maxTm (startState h) = - 1000"
  "secondBestTm (startState h) = - 2000"
  "bestReg (startState h) = (6, 6, 6, 11)"
  "secondBestReg (startState h) = (5, 5, 5, 10)"
  by (simp_all add: startState_def)

lemma registers_1: "registers (Suc 0) = [(0, 0, 0, 0)]"
  by (simp add: registers_def)


subsection \<open>What the loop body stores for a register\<close>

lemma role_exclusive: "isXaa h x \<Longrightarrow> \<not> isYaa h x"
  by (simp add: isXaa_def isYaa_def)

lemma chargeStep_eq:
  "chargeStep ch (net, tot) = (net + residueCharge ch, tot + residueCharged ch)"
  by (simp add: chargeStep_def residueCharge_def residueCharged_def)

lemma propFull_eq: "propFull p h x ch P = P + roleValue p h x ch"
  by (simp add: propFull_def roleValue_def Let_def role_exclusive)

lemma propTip_eq: "propTip p h x ch P = P + roleValue p h x ch / 3"
  by (simp add: propTip_def roleValue_def Let_def role_exclusive)

lemma singleAA_eq:
  "singleAA p h a b c x (net, tot, P) =
     (net + (residueCharge (sequences h a x) + residueCharge (sequences h b x)
              + residueCharge (sequences h c x)),
      tot + (residueCharged (sequences h a x) + residueCharged (sequences h b x)
              + residueCharged (sequences h c x)),
      P + (if 2 < x \<and> x + 2 < numAA h then positionValue p h a b c x
           else positionValue p h a b c x / 3))"
  by (simp add: singleAA_def chargeStep_eq propFull_eq propTip_eq positionValue_def
        add_divide_distrib)

lemma fold_singleAA:
  "fold (singleAA p h a b c) xs (net, tot, P) =
     (net + (\<Sum>x\<leftarrow>xs. residueCharge (sequences h a x) + residueCharge (sequences h b x)
                       + residueCharge (sequences h c x)),
      tot + (\<Sum>x\<leftarrow>xs. residueCharged (sequences h a x) + residueCharged (sequences h b x)
                       + residueCharged (sequences h c x)),
      P + (\<Sum>x\<leftarrow>xs. if 2 < x \<and> x + 2 < numAA h then positionValue p h a b c x
                      else positionValue p h a b c x / 3))"
proof (induction xs arbitrary: net tot P)
  case Nil
  show ?case by simp
next
  case (Cons x xs)
  show ?case
    by (simp only: fold_simps singleAA_eq Cons.IH list.map sum_list.Cons add.assoc)
qed

lemma residue_loop:
  "fold (singleAA p h a b c) [0..<numAA h] (net, tot, P) =
     (net + netChargeSum h a b c, tot + totalChargeSum h a b c, P + propensitySum p h a b c)"
  by (simp add: fold_singleAA netChargeSum_def totalChargeSum_def propensitySum_def)

lemma registers_product:
  "registers n = map (\<lambda>(a, b, c). (a, b, c, 0)) (List.product [0..<n] (List.product [0..<n] [0..<n]))"
  by (simp add: registers_def product_concat_map map_concat comp_def)

lemma distinct_registers: "distinct (registers n)"
  unfolding registers_product
  by (intro distinct_product distinct_upt iffD2 [OF distinct_map] conjI inj_onI) auto

lemma set_registers: "(a, b, c, d) \<in> set (registers n) \<longleftrightarrow> a < n \<and> b < n \<and> c < n \<and> d = 0"
  by (auto simp add: registers_def image_iff)

lemma entry_grid_upd:
  "entry (grid_upd g a b c d v) r = (if r = (a, b, c, d) then v else entry g r)"
  by (cases r) (auto simp add: entry_def grid_upd_def)

lemma scoreRegister_netCharge:
  "netCharge (theHelix (scoreRegister p (a, b, c, d) s)) =
     grid_upd (netCharge (theHelix s)) a b c d
       (netCharge (theHelix s) a b c d + netChargeSum (theHelix s) a b c)"
  by (simp add: scoreRegister_def Let_def case_prod_beta residue_loop)

lemma scoreRegister_totalCharge:
  "totalCharge (theHelix (scoreRegister p (a, b, c, d) s)) =
     grid_upd (totalCharge (theHelix s)) a b c d
       (totalCharge (theHelix s) a b c d + totalChargeSum (theHelix s) a b c)"
  by (simp add: scoreRegister_def Let_def case_prod_beta residue_loop)

lemma scoreRegister_Propensity:
  "Propensity (theHelix (scoreRegister p (a, b, c, d) s)) =
     grid_upd (Propensity (theHelix s)) a b c d
       (chargeScoring (netCharge (theHelix s) a b c d + netChargeSum (theHelix s) a b c)
          (termini (theHelix s) a b c (lengthBasis p (theHelix s))
             + propensitySum p (theHelix s) a b c))"
  by (simp add: scoreRegister_def Let_def case_prod_beta residue_loop)


lemma netChargeSum_static:
  "numAA h' = numAA h \<Longrightarrow> sequences h' = sequences h \<Longrightarrow>
     netChargeSum h' a b c = netChargeSum h a b c"
  by (simp add: netChargeSum_def)

lemma totalChargeSum_static:
  "numAA h' = numAA h \<Longrightarrow> sequences h' = sequences h \<Longrightarrow>
     totalChargeSum h' a b c = totalChargeSum h a b c"
  by (simp add: totalChargeSum_def)

lemma termini_static:
  "numAA h' = numAA h \<Longrightarrow> sequences h' = sequences h \<Longrightarrow> XaaPos h' = XaaPos h \<Longrightarrow>
   Nterm h' = Nterm h \<Longrightarrow> Cterm h' = Cterm h \<Longrightarrow>
     termini h' a b c P = termini h a b c P"
  unfolding termini_def isXaa_def isGly_def by (simp only:)

lemma lengthBasis_static: "numAA h' = numAA h \<Longrightarrow> lengthBasis p h' = lengthBasis p h"
  by (simp add: lengthBasis_def)

lemma positionValue_static:
  "sequences h' = sequences h \<Longrightarrow> XaaPos h' = XaaPos h \<Longrightarrow>
     positionValue p h' a b c x = positionValue p h a b c x"
  by (simp add: positionValue_def roleValue_def isXaa_def isYaa_def)

lemma propensitySum_static:
  "numAA h' = numAA h \<Longrightarrow> sequences h' = sequences h \<Longrightarrow> XaaPos h' = XaaPos h \<Longrightarrow>
     propensitySum p h' a b c = propensitySum p h a b c"
  by (simp add: propensitySum_def positionValue_static [of h' h] cong: if_cong)

lemma registerPropensity_static:
  "numAA h' = numAA h \<Longrightarrow> sequences h' = sequences h \<Longrightarrow> XaaPos h' = XaaPos h \<Longrightarrow>
   Nterm h' = Nterm h \<Longrightarrow> Cterm h' = Cterm h \<Longrightarrow>
     registerPropensity p h' a b c n = registerPropensity p h a b c n"
  by (simp add: registerPropensity_def netChargeSum_static [of h' h] termini_static [of h' h]
        lengthBasis_static [of h' h] propensitySum_static [of h' h])

lemma registerBody_grids:
  "netCharge (theHelix (registerBody p (a, b, c, d) s)) =
     grid_upd (netCharge (theHelix s)) a b c d
       (netCharge (theHelix s) a b c d + netChargeSum (theHelix s) a b c)"
  "totalCharge (theHelix (registerBody p (a, b, c, d) s)) =
     grid_upd (totalCharge (theHelix s)) a b c d
       (totalCharge (theHelix s) a b c d + totalChargeSum (theHelix s) a b c)"
  "Propensity (theHelix (registerBody p (a, b, c, d) s)) =
     grid_upd (Propensity (theHelix s)) a b c d
       (registerPropensity p (theHelix s) a b c (netCharge (theHelix s) a b c d))"
  by (simp_all add: registerBody_def Let_def scoreRegister_netCharge scoreRegister_totalCharge
        scoreRegister_Propensity registerPropensity_def)

lemma fold_frame:
  "r \<notin> set rs \<Longrightarrow>
     entry (netCharge (theHelix (fold (registerBody p) rs s))) r = entry (netCharge (theHelix s)) r \<and>
     entry (totalCharge (theHelix (fold (registerBody p) rs s))) r = entry (totalCharge (theHelix s)) r \<and>
     entry (Propensity (theHelix (fold (registerBody p) rs s))) r = entry (Propensity (theHelix s)) r"
proof (induction rs arbitrary: s)
  case Nil
  show ?case by simp
next
  case (Cons r0 rs)
  obtain a b c d where r0: "r0 = (a, b, c, d)"
    by (cases r0) auto
  from Cons.prems have "r \<noteq> r0" "r \<notin> set rs"
    by auto
  with Cons.IH [of "registerBody p r0 s"] show ?case
    by (simp add: r0 registerBody_grids entry_grid_upd)
qed

lemma fold_scored:
  "distinct rs \<Longrightarrow> (a, b, c, d) \<in> set rs \<Longrightarrow>
     netCharge (theHelix (fold (registerBody p) rs s)) a b c d =
       netCharge (theHelix s) a b c d + netChargeSum (theHelix s) a b c \<and>
     totalCharge (theHelix (fold (registerBody p) rs s)) a b c d =
       totalCharge (theHelix s) a b c d + totalChargeSum (theHelix s) a b c \<and>
     Propensity (theHelix (fold (registerBody p) rs s)) a b c d =
       registerPropensity p (theHelix s) a b c (netCharge (theHelix s) a b c d)"
proof (induction rs arbitrary: s)
  case Nil
  then show ?case by simp
next
  case (Cons r0 rs)
  obtain a0 b0 c0 d0 where r0: "r0 = (a0, b0, c0, d0)"
    by (cases r0) auto
  let ?s = "registerBody p r0 s"
  show ?case
  proof (cases "r0 = (a, b, c, d)")
    case True
    with Cons.prems have "(a, b, c, d) \<notin> set rs"
      by simp
    from fold_frame [OF this, of p ?s] True show ?thesis
      by (simp add: entry_def registerBody_grids)
  next
    case False
    with Cons.prems have rest: "distinct rs" "(a, b, c, d) \<in> set rs"
      by auto
    have "(a, b, c, d) \<notin> set [r0]"
      using False by simp
    from fold_frame [OF this, of p s]
    have frame: "netCharge (theHelix ?s) a b c d = netCharge (theHelix s) a b c d"
      "totalCharge (theHelix ?s) a b c d = totalCharge (theHelix s) a b c d"
      by (simp_all add: entry_def)
    have static: "netChargeSum (theHelix ?s) a b c = netChargeSum (theHelix s) a b c"
      "totalChargeSum (theHelix ?s) a b c = totalChargeSum (theHelix s) a b c"
      "registerPropensity p (theHelix ?s) a b c n = registerPropensity p (theHelix s) a b c n"
      for n
      by (rule netChargeSum_static totalChargeSum_static registerPropensity_static; simp)+
    from Cons.IH [OF rest, of ?s] show ?thesis
      by (simp add: frame static)
  qed
qed

lemma ScoreHelix_scored:
  assumes "a < numPep h" "b < numPep h" "c < numPep h"
  shows "netCharge (ScoreHelix p h) a b c 0 = netCharge h a b c 0 + netChargeSum h a b c"
    and "totalCharge (ScoreHelix p h) a b c 0 = totalCharge h a b c 0 + totalChargeSum h a b c"
    and "Propensity (ScoreHelix p h) a b c 0 = registerPropensity p h a b c (netCharge h a b c 0)"
proof -
  have mem: "(a, b, c, 0) \<in> set (registers (numPep h))"
    using assms by (simp add: set_registers)
  have static: "netChargeSum (theHelix (startState h)) a b c = netChargeSum h a b c"
    "totalChargeSum (theHelix (startState h)) a b c = totalChargeSum h a b c"
    "registerPropensity p (theHelix (startState h)) a b c n = registerPropensity p h a b c n" for n
    by (rule netChargeSum_static totalChargeSum_static registerPropensity_static; simp)+
  from fold_scored [OF distinct_registers mem, of p "startState h"]
  show "netCharge (ScoreHelix p h) a b c 0 = netCharge h a b c 0 + netChargeSum h a b c"
    and "totalCharge (ScoreHelix p h) a b c 0 = totalCharge h a b c 0 + totalChargeSum h a b c"
    and "Propensity (ScoreHelix p h) a b c 0 = registerPropensity p h a b c (netCharge h a b c 0)"
    by (simp_all add: ScoreHelix_def Let_def static)
qed


subsection \<open>The samples, scored\<close>

text \<open>
  The values that \<open>ScoreHelix\<close> produces for the concrete samples, computed by
  rewriting with the definitions. For \<open>heterotrimer_example\<close> the list gives, for each
  register in the order of the loop, the net charge, the total charge, the propensity,
  the pairwise score and the Tm.
\<close>

lemma registers_2:
  "registers 2 = [(0, 0, 0, 0), (0, 0, 1, 0), (0, 1, 0, 0), (0, 1, 1, 0),
                  (1, 0, 0, 0), (1, 0, 1, 0), (1, 1, 0, 0), (1, 1, 1, 0)]"
  by code_simp

lemma heterotrimer_scored:
  "registerSummary (ScoreHelix example_parameters heterotrimer_example)
     [(0, 0, 0, 0), (0, 0, 1, 0), (0, 1, 0, 0), (0, 1, 1, 0),
      (1, 0, 0, 0), (1, 0, 1, 0), (1, 1, 0, 0), (1, 1, 1, 0)] =
   (((32, (1, 1, 1, 0)), (31, (1, 1, 0, 0)), (31, (1, 1, 0, 0)), 22, 1),
    [(9, 9, 28, 0, 28), (8, 8, 30, 0, 30), (8, 8, 30, 0, 30), (7, 7, 31, 0, 31),
     (8, 8, 30, 0, 30), (7, 7, 31, 0, 31), (7, 7, 31, 0, 31), (6, 6, 32, 0, 32)])"
  by code_simp

lemma charged_scored_once:
  "registerSummary (ScoreHelix example_parameters charged_example) [(0, 0, 0, 0)] =
   (((32, (0, 0, 0, 0)), (- 1000, (6, 6, 6, 11)), (32, (0, 0, 0, 12)), 2, 1032),
    [(6, 6, 32, 0, 32)])"
  by code_simp

lemma charged_scored_twice:
  "registerSummary (ScoreHelix example_parameters (ScoreHelix example_parameters charged_example))
     [(0, 0, 0, 0)] =
   (((30, (0, 0, 0, 0)), (- 1000, (6, 6, 6, 11)), (30, (0, 0, 0, 12)), 0, 1030),
    [(12, 12, 30, 0, 30)])"
  by code_simp

lemma homotrimer_scored:
  "registerSummary (ScoreHelix example_parameters homotrimer_example) [(0, 0, 0, 0)] =
   (((36, (0, 0, 0, 0)), (- 1000, (6, 6, 6, 11)), (36, (0, 0, 0, 12)), 6, 1036),
    [(0, 0, 36, 0, 36)])"
  by code_simp

lemma twin_first:
  "scanSummary (registerBody example_parameters (0, 0, 0, 0) (startState twin_example))
     (0, 0, 0, 0) =
     ((36, (0, 0, 0, 0)), (- 1000, (6, 6, 6, 11)), (- 1500, (7, 7, 7, 12)), 2, 36)"
  by code_simp

lemma twin_second:
  "scanSummary (registerBody example_parameters (0, 0, 1, 0)
       (registerBody example_parameters (0, 0, 0, 0) (startState twin_example))) (0, 0, 1, 0) =
     ((36, (0, 0, 1, 0)), (36, (0, 0, 0, 0)), (36, (0, 0, 1, 0)), 2, 36)"
  by code_simp

lemma homotrimer_sums:
  "netChargeSum homotrimer_example 0 0 0 = 0"
  "totalChargeSum homotrimer_example 0 0 0 = 0"
  "propensitySum example_parameters homotrimer_example 0 0 0 = 36"
  "claimedPropensitySum example_parameters homotrimer_example 0 0 0 = 34"
  "termini homotrimer_example 0 0 0 (lengthBasis example_parameters homotrimer_example) = 0"
  "singleAA example_parameters homotrimer_example 0 0 0 18 (0, 0, 0) = (0, 0, 3)"
  "positionValue example_parameters homotrimer_example 0 0 0 18 = 3"
  "isXaa homotrimer_example 18"
  by code_simp+

lemma heterotrimer_sums:
  "termini heterotrimer_example 0 0 1 (lengthBasis example_parameters heterotrimer_example)
     + propensitySum example_parameters heterotrimer_example 0 0 1 = 30"
  "netChargeSum heterotrimer_example 0 0 1 = 8"
  by code_simp+

subsection \<open>The claims about the scorer\<close>

text \<open>
  Claim C2, as amended. When the best register and the register of the correct
  composition agree (on their three peptides), the deviation is \<open>bestTm - expTm\<close>,
  except when \<open>expTm = -10\<close>: then it is 0 if \<open>bestTm \<le> 10\<close> and \<open>bestTm - 10\<close> otherwise.
  When they differ and \<open>expTm = -10\<close>, the deviation is again 0 if \<open>bestTm \<le> 10\<close> and
  \<open>bestTm - 10\<close> otherwise: the sentinel case looks at the best Tm, not at \<open>CCTm\<close>. When
  they differ and \<open>expTm\<close> is not \<open>-10\<close>, the base \<open>CCTm - expTm\<close> is moved away from zero
  by half of \<open>|CCTm - bestTm|\<close>: added if the base is at least 0, subtracted if it is
  negative. Here \<open>bestTm\<close> is \<open>HighTm\<close>.
\<close>

theorem deviation_rule:
  "deviation (ScoreHelix p h) =
     (if sameRegister (CCRegister (ScoreHelix p h)) (bestRegister (ScoreHelix p h))
      then (if expTm h = - 10
            then (if HighTm (ScoreHelix p h) \<le> 10 then 0 else HighTm (ScoreHelix p h) - 10)
            else HighTm (ScoreHelix p h) - expTm h)
      else (if expTm h = - 10
            then (if HighTm (ScoreHelix p h) \<le> 10 then 0 else HighTm (ScoreHelix p h) - 10)
            else (if CCTm (ScoreHelix p h) - expTm h < 0
                  then CCTm (ScoreHelix p h) - expTm h
                         - 0.5 * \<bar>CCTm (ScoreHelix p h) - HighTm (ScoreHelix p h)\<bar>
                  else CCTm (ScoreHelix p h) - expTm h
                         + 0.5 * \<bar>CCTm (ScoreHelix p h) - HighTm (ScoreHelix p h)\<bar>)))"
  by (simp add: ScoreHelix_def Let_def setDeviation_def)

text \<open>
  Claim C2 as stated fails: for \<open>heterotrimer_example\<close> the experimental Tm is \<open>-10\<close>, the
  best register (1, 1, 1) is not the register of the correct composition (1, 1, 0),
  \<open>CCTm\<close> is 31 and the best Tm is 32; the deviation is \<open>32 - 10\<close>, not \<open>31 - 10\<close>.
\<close>

theorem deviation_sentinel_counterexample:
  "expTm heterotrimer_example = - 10 \<and>
   bestRegister (ScoreHelix example_parameters heterotrimer_example) = (1, 1, 1, 0) \<and>
   CCRegister (ScoreHelix example_parameters heterotrimer_example) = (1, 1, 0, 0) \<and>
   \<not> sameRegister (CCRegister (ScoreHelix example_parameters heterotrimer_example)) (bestRegister (ScoreHelix example_parameters heterotrimer_example)) \<and>
   HighTm (ScoreHelix example_parameters heterotrimer_example) = 32 \<and>
   CCTm (ScoreHelix example_parameters heterotrimer_example) = 31 \<and>
   deviation (ScoreHelix example_parameters heterotrimer_example) = 22 \<and>
   deviation (ScoreHelix example_parameters heterotrimer_example) \<noteq> (if CCTm (ScoreHelix example_parameters heterotrimer_example) \<le> 10 then 0 else CCTm (ScoreHelix example_parameters heterotrimer_example) - 10)"
proof -
  have "scoreSummary (ScoreHelix example_parameters heterotrimer_example) =
          ((32, (1, 1, 1, 0)), (31, (1, 1, 0, 0)), (31, (1, 1, 0, 0)), 22, 1)"
    using heterotrimer_scored by (simp add: registerSummary_def)
  then show ?thesis
    by (simp add: scoreSummary_def sameRegister_def heterotrimer_example_def)
qed




text \<open>
  Claim C6, as amended. In the loop over the residues, an Xaa or Yaa position \<open>x\<close> with
  \<open>3 \<le> x \<le> numAA - 3\<close> adds the full propensity of its residue for each of the three
  peptides; the positions 0, 1 and 2 and the last two positions (\<open>numAA - 2\<close> and
  \<open>numAA - 1\<close>) add one third of it. The propensity stored for a register is the length
  and terminus term plus this sum, after the charge scoring.
\<close>

theorem tips_of_the_propensity_sum:
  assumes "a < numPep h" "b < numPep h" "c < numPep h"
  shows "fold (singleAA p h a b c) [0..<numAA h] (net, tot, P) =
           (net + netChargeSum h a b c, tot + totalChargeSum h a b c,
            P + (\<Sum>x\<leftarrow>[0..<numAA h]. if 2 < x \<and> x + 2 < numAA h
                                          then positionValue p h a b c x
                                          else positionValue p h a b c x / 3)) \<and>
         Propensity (ScoreHelix p h) a b c 0 =
           chargeScoring (netCharge (ScoreHelix p h) a b c 0)
             (termini h a b c (lengthBasis p h)
                + (\<Sum>x\<leftarrow>[0..<numAA h]. if 2 < x \<and> x + 2 < numAA h
                                            then positionValue p h a b c x
                                            else positionValue p h a b c x / 3))"
  using ScoreHelix_scored [OF assms, of p]
  by (simp add: residue_loop registerPropensity_def propensitySum_def)


theorem tips_of_the_propensity_sum_witness:
  "0 < numPep homotrimer_example \<and>
   fold (singleAA example_parameters homotrimer_example 0 0 0) [0..<numAA homotrimer_example]
     (0, 0, 0) = (0, 0, 36) \<and>
   Propensity (ScoreHelix example_parameters homotrimer_example) 0 0 0 0 = 36"
proof -
  have one: "0 < numPep homotrimer_example"
    by (simp add: homotrimer_example_def)
  have net: "netCharge (ScoreHelix example_parameters homotrimer_example) 0 0 0 0 = 0"
    using homotrimer_scored by (simp add: registerSummary_def gridSummary_def)
  note inst = tips_of_the_propensity_sum [OF one one one, of example_parameters 0 0 0,
      folded propensitySum_def]
  from inst have loop:
    "fold (singleAA example_parameters homotrimer_example 0 0 0) [0..<numAA homotrimer_example]
       (0, 0, 0) = (0, 0, 36)"
    by (simp only: homotrimer_sums) simp
  from inst have "Propensity (ScoreHelix example_parameters homotrimer_example) 0 0 0 0 =
      chargeScoring 0 (0 + 36)"
    by (simp only: homotrimer_sums net)
  then have "Propensity (ScoreHelix example_parameters homotrimer_example) 0 0 0 0 = 36"
    by (simp add: chargeScoring_def)
  with one loop show ?thesis
    by simp
qed

text \<open>
  Claim C6 as stated fails: in \<open>homotrimer_example\<close> (21 residues) position 18 is one of
  the three residues at the C-terminal end and is an Xaa position; the loop adds the
  full value 3 for it (1 for each peptide), not 1. The propensity of the register is
  36, where the sum with three scaled positions at either end gives 34.
\<close>

theorem tips_counterexample:
  "numAA homotrimer_example = 21 \<and>
   isXaa homotrimer_example 18 \<and>
   positionValue example_parameters homotrimer_example 0 0 0 18 = 3 \<and>
   singleAA example_parameters homotrimer_example 0 0 0 18 (0, 0, 0) = (0, 0, 3) \<and>
   netCharge (ScoreHelix example_parameters homotrimer_example) 0 0 0 0 = 0 \<and>
   Propensity (ScoreHelix example_parameters homotrimer_example) 0 0 0 0 = 36 \<and>
   termini homotrimer_example 0 0 0 (lengthBasis example_parameters homotrimer_example)
     + claimedPropensitySum example_parameters homotrimer_example 0 0 0 = 34"
proof -
  have len: "numAA homotrimer_example = 21"
    by (simp add: homotrimer_example_def)
  have "map (gridSummary (ScoreHelix example_parameters homotrimer_example)) [(0, 0, 0, 0)] =
          [(0, 0, 36, 0, 36)]"
    using homotrimer_scored by (simp add: registerSummary_def)
  with len homotrimer_sums show ?thesis
    by (simp add: gridSummary_def)
qed

text \<open>
  Claim C7, as amended. For a register whose net charge counter is zero when
  \<open>ScoreHelix\<close> is called (as \<open>initializeAll\<close> leaves it), the net charge is the sum over
  the residues of the three peptides of \<open>+1\<close> for Lys and Arg and \<open>-1\<close> for Glu and Asp,
  and when its absolute value exceeds 6 the propensity is reduced by the integer
  quotient of \<open>|net charge| - 6\<close> by 3 (so a net charge of 8 reduces it by 0 and a net
  charge of 9 by 1).
\<close>

theorem charge_penalty_is_integer_quotient:
  assumes "a < numPep h" "b < numPep h" "c < numPep h" and "netCharge h a b c 0 = 0"
  shows "netCharge (ScoreHelix p h) a b c 0 = netChargeSum h a b c \<and>
         Propensity (ScoreHelix p h) a b c 0 =
           termini h a b c (lengthBasis p h) + propensitySum p h a b c
             - (if \<bar>netChargeSum h a b c\<bar> > 6
                then real_of_int ((\<bar>netChargeSum h a b c\<bar> - 6) div 3) else 0)"
  using ScoreHelix_scored [OF assms(1-3), of p] assms(4)
  by (simp add: registerPropensity_def chargeScoring_def)


theorem charge_penalty_is_integer_quotient_witness:
  "0 < numPep heterotrimer_example \<and> 1 < numPep heterotrimer_example \<and>
   netCharge heterotrimer_example 0 0 1 0 = 0 \<and>
   netCharge (ScoreHelix example_parameters heterotrimer_example) 0 0 1 0 = 8 \<and>
   Propensity (ScoreHelix example_parameters heterotrimer_example) 0 0 1 0 = 30"
proof -
  have two: "0 < numPep heterotrimer_example" "1 < numPep heterotrimer_example"
    by (simp_all add: heterotrimer_example_def)
  have zero: "netCharge heterotrimer_example 0 0 1 0 = 0"
    by (simp add: heterotrimer_example_def initializeAll_def)
  from charge_penalty_is_integer_quotient [OF two(1) two(1) two(2) zero, of example_parameters]
    heterotrimer_sums two zero
  show ?thesis
    by simp
qed

text \<open>
  Claim C7 as stated fails: the register (0, 0, 1) of \<open>heterotrimer_example\<close> has the
  net charge 8; its propensity before the charge scoring is 30 and its propensity
  after it is 30 as well, not \<open>30 - 2/3\<close>.
\<close>

theorem charge_penalty_counterexample:
  "netCharge (ScoreHelix example_parameters heterotrimer_example) 0 0 1 0 = 8 \<and>
   termini heterotrimer_example 0 0 1 (lengthBasis example_parameters heterotrimer_example)
     + propensitySum example_parameters heterotrimer_example 0 0 1 = 30 \<and>
   Propensity (ScoreHelix example_parameters heterotrimer_example) 0 0 1 0 = 30 \<and>
   Propensity (ScoreHelix example_parameters heterotrimer_example) 0 0 1 0 \<noteq> 30 - (\<bar>8\<bar> - 6) / 3"
proof -
  have "map (gridSummary (ScoreHelix example_parameters heterotrimer_example))
           [(0, 0, 0, 0), (0, 0, 1, 0), (0, 1, 0, 0), (0, 1, 1, 0),
            (1, 0, 0, 0), (1, 0, 1, 0), (1, 1, 0, 0), (1, 1, 1, 0)] =
         [(9, 9, 28, 0, 28), (8, 8, 30, 0, 30), (8, 8, 30, 0, 30), (7, 7, 31, 0, 31),
          (8, 8, 30, 0, 30), (7, 7, 31, 0, 31), (7, 7, 31, 0, 31), (6, 6, 32, 0, 32)]"
    using heterotrimer_scored by (simp add: registerSummary_def)
  with heterotrimer_sums show ?thesis
    by (simp add: gridSummary_def)
qed

text \<open>
  Claim C8. The claim says that scoring the same sample twice with the same parameters
  gives the same results both times. \<open>ScoreHelix\<close> clears the grids \<open>Propensity\<close>,
  \<open>PairWise\<close> and \<open>Tm\<close> when it starts, but not \<open>netCharge\<close> and \<open>totalCharge\<close>, which it
  goes on counting up from the values of the previous call. For \<open>charged_example\<close> (two
  lysines in each peptide) the first call leaves the net charge 6, the Tm 32 and the
  deviation 2; the second call leaves the net charge 12, which now exceeds 6, so the Tm
  is 30 and the deviation 0.
\<close>

theorem scoring_twice_differs:
  "netCharge (ScoreHelix example_parameters charged_example) 0 0 0 0 = 6 \<and>
   totalCharge (ScoreHelix example_parameters charged_example) 0 0 0 0 = 6 \<and>
   Propensity (ScoreHelix example_parameters charged_example) 0 0 0 0 = 32 \<and>
   Tm (ScoreHelix example_parameters charged_example) 0 0 0 0 = 32 \<and>
   HighTm (ScoreHelix example_parameters charged_example) = 32 \<and>
   deviation (ScoreHelix example_parameters charged_example) = 2 \<and>
   specificity (ScoreHelix example_parameters charged_example) = 1032 \<and>
   netCharge (ScoreHelix example_parameters (ScoreHelix example_parameters charged_example)) 0 0 0 0 = 12 \<and>
   totalCharge (ScoreHelix example_parameters (ScoreHelix example_parameters charged_example)) 0 0 0 0 = 12 \<and>
   Propensity (ScoreHelix example_parameters (ScoreHelix example_parameters charged_example)) 0 0 0 0 = 30 \<and>
   Tm (ScoreHelix example_parameters (ScoreHelix example_parameters charged_example)) 0 0 0 0 = 30 \<and>
   HighTm (ScoreHelix example_parameters (ScoreHelix example_parameters charged_example)) = 30 \<and>
   deviation (ScoreHelix example_parameters (ScoreHelix example_parameters charged_example)) = 0 \<and>
   specificity (ScoreHelix example_parameters (ScoreHelix example_parameters charged_example)) = 1030"
  using charged_scored_once charged_scored_twice
  by (simp add: registerSummary_def scoreSummary_def gridSummary_def)


text \<open>
  Claim C10. For a sample with one peptide whose only register has a Tm of at least
  \<open>-1000\<close>, that register takes the place of the starting value of the best register,
  which moves to the second-best slot: \<open>secTm = -1000\<close>, \<open>secRegister = (6, 6, 6, 11)\<close>
  and \<open>specificity = HighTm + 1000\<close>.
\<close>

theorem single_peptide_second_slot:
  assumes "numPep h = 1" and "Tm (ScoreHelix p h) 0 0 0 0 \<ge> - 1000"
  shows "secTm (ScoreHelix p h) = - 1000 \<and>
         secRegister (ScoreHelix p h) = (6, 6, 6, 11) \<and>
         specificity (ScoreHelix p h) = HighTm (ScoreHelix p h) + 1000"
proof -
  let ?s = "scoreRegister p (0, 0, 0, 0) (startState h)"
  have run: "fold (registerBody p) (registers (numPep h)) (startState h)
               = registerBody p (0, 0, 0, 0) (startState h)"
    using assms(1) by (simp add: registers_1)
  have "Tm (ScoreHelix p h) = Tm (theHelix ?s)"
    by (simp add: ScoreHelix_def run Let_def registerBody_def)
  with assms(2) have "maxTm ?s \<le> Tm (theHelix ?s) 0 0 0 0"
    by simp
  then have best: "trackBest (0, 0, 0, 0) ?s =
      ?s\<lparr>secondBestTm := maxTm ?s, secondBestReg := bestReg ?s,
          maxTm := Tm (theHelix ?s) 0 0 0 0, bestReg := (0, 0, 0, 0)\<rparr>"
    by (simp add: trackBest_def)
  show ?thesis
    by (simp add: ScoreHelix_def run Let_def registerBody_def best)
qed

theorem single_peptide_second_slot_witness:
  "numPep homotrimer_example = 1 \<and>
   Tm (ScoreHelix example_parameters homotrimer_example) 0 0 0 0 = 36 \<and>
   secTm (ScoreHelix example_parameters homotrimer_example) = - 1000 \<and>
   secRegister (ScoreHelix example_parameters homotrimer_example) = (6, 6, 6, 11) \<and>
   specificity (ScoreHelix example_parameters homotrimer_example) = 1036"
proof -
  have one: "numPep homotrimer_example = 1"
    by (simp add: homotrimer_example_def)
  have tm: "Tm (ScoreHelix example_parameters homotrimer_example) 0 0 0 0 = 36"
    using homotrimer_scored by (simp add: registerSummary_def gridSummary_def)
  have high: "HighTm (ScoreHelix example_parameters homotrimer_example) = 36"
    using homotrimer_scored by (simp add: registerSummary_def scoreSummary_def)
  from single_peptide_second_slot [OF one, of example_parameters] tm high one
  show ?thesis
    by simp
qed

section \<open>Properties of the calibration loop\<close>

lemma rescore_le: "sumSquaredDev (rescore T s) \<le> sumSquaredDev s"
  by (simp add: rescore_def Let_def)

lemma rescore_parameters: "parameters (rescore T s) = parameters s"
  by (simp add: rescore_def Let_def)

lemma rescore_unimproved:
  "\<not> improved (rescore T s) \<Longrightarrow> sumSquaredDev (rescore T s) = sumSquaredDev s"
  by (simp add: rescore_def Let_def split: if_splits)

lemma rescore_improved:
  "\<not> improved s \<Longrightarrow> improved (rescore T s) \<Longrightarrow> sumSquaredDev (rescore T s) < sumSquaredDev s"
  by (simp add: rescore_def Let_def split: if_splits)

lemma trialDown_le: "sumSquaredDev (trialDown get upd ref T s) \<le> sumSquaredDev s"
  using rescore_le [of T "s\<lparr>parameters := upd (\<lambda>v. v - delta) (parameters s), NewSumSquaredDev := 0\<rparr>"]
  by (simp add: trialDown_def Let_def)

lemma trialUp_le: "sumSquaredDev (trialUp get upd ref T s) \<le> sumSquaredDev s"
  using rescore_le [of T "s\<lparr>parameters := upd (\<lambda>v. v + delta) (upd (\<lambda>v. v + delta) (parameters s)),
                             NewSumSquaredDev := 0\<rparr>"]
  by (simp add: trialUp_def Let_def)

lemma trialDown_parameters:
  "parameters (trialDown get upd ref T s) = upd (\<lambda>v. v - delta) (parameters s)"
  by (simp add: trialDown_def Let_def rescore_parameters)

lemma trialUp_parameters:
  "parameters (trialUp get upd ref T s) = upd (\<lambda>v. v + delta) (upd (\<lambda>v. v + delta) (parameters s))"
  by (simp add: trialUp_def Let_def rescore_parameters)

lemma trialDown_unimproved:
  "\<not> improved (trialDown get upd ref T s) \<Longrightarrow>
     sumSquaredDev (trialDown get upd ref T s) = sumSquaredDev s"
  using rescore_unimproved [of T "s\<lparr>parameters := upd (\<lambda>v. v - delta) (parameters s), NewSumSquaredDev := 0\<rparr>"]
  by (simp add: trialDown_def Let_def split: if_splits)

lemma trialUp_unimproved:
  "\<not> improved (trialUp get upd ref T s) \<Longrightarrow>
     sumSquaredDev (trialUp get upd ref T s) = sumSquaredDev s"
  using rescore_unimproved [of T "s\<lparr>parameters := upd (\<lambda>v. v + delta) (upd (\<lambda>v. v + delta) (parameters s)),
                             NewSumSquaredDev := 0\<rparr>"]
  by (simp add: trialUp_def Let_def split: if_splits)

lemma trialDown_improved:
  "\<not> improved s \<Longrightarrow> improved (trialDown get upd ref T s) \<Longrightarrow>
     sumSquaredDev (trialDown get upd ref T s) < sumSquaredDev s"
  using rescore_improved [of "s\<lparr>parameters := upd (\<lambda>v. v - delta) (parameters s), NewSumSquaredDev := 0\<rparr>" T]
  by (simp add: trialDown_def Let_def split: if_splits)

lemma trialUp_improved:
  "\<not> improved s \<Longrightarrow> improved (trialUp get upd ref T s) \<Longrightarrow>
     sumSquaredDev (trialUp get upd ref T s) < sumSquaredDev s"
  using rescore_improved [of "s\<lparr>parameters := upd (\<lambda>v. v + delta) (upd (\<lambda>v. v + delta) (parameters s)),
                             NewSumSquaredDev := 0\<rparr>" T]
  by (simp add: trialUp_def Let_def split: if_splits)

lemma tryScalar_le: "sumSquaredDev (tryScalar get upd ref T s) \<le> sumSquaredDev s"
  using trialDown_le [of get upd ref T s]
        trialUp_le [of get upd ref T "trialDown get upd ref T s"]
  by (simp add: tryScalar_def Let_def)

lemma tryScalar_kept_or_restored:
  assumes "\<not> improved s"
    and restore: "\<And>p. upd (\<lambda>v. v - delta) (upd (\<lambda>v. v + delta) (upd (\<lambda>v. v + delta)
                     (upd (\<lambda>v. v - delta) p))) = p"
  shows "sumSquaredDev (tryScalar get upd ref T s) < sumSquaredDev s \<or>
         (sumSquaredDev (tryScalar get upd ref T s) = sumSquaredDev s \<and>
          parameters (tryScalar get upd ref T s) = parameters s)"
proof (cases "improved (trialDown get upd ref T s)")
  case True
  with assms(1) trialDown_improved [of s get upd ref T] show ?thesis
    by (simp add: tryScalar_def Let_def)
next
  case down: False
  let ?d = "trialDown get upd ref T s"
  show ?thesis
  proof (cases "improved (trialUp get upd ref T ?d)")
    case True
    with down trialUp_improved [of ?d get upd ref T] trialDown_le [of get upd ref T s]
    show ?thesis
      by (simp add: tryScalar_def Let_def)
  next
    case False
    with down trialUp_unimproved [of get upd ref T ?d] trialDown_unimproved [of get upd ref T s]
    show ?thesis
      by (simp add: tryScalar_def Let_def trialUp_parameters trialDown_parameters restore)
  qed
qed

lemma restore_propensityX:
  "updPropensityX x (\<lambda>v. v - delta) (updPropensityX x (\<lambda>v. v + delta)
     (updPropensityX x (\<lambda>v. v + delta) (updPropensityX x (\<lambda>v. v - delta) p))) = p"
  by (simp add: updPropensityX_def)

lemma restore_propensityY:
  "updPropensityY x (\<lambda>v. v - delta) (updPropensityY x (\<lambda>v. v + delta)
     (updPropensityY x (\<lambda>v. v + delta) (updPropensityY x (\<lambda>v. v - delta) p))) = p"
  by (simp add: updPropensityY_def)

lemma restore_axial:
  "updAxial x y (\<lambda>v. v - delta) (updAxial x y (\<lambda>v. v + delta)
     (updAxial x y (\<lambda>v. v + delta) (updAxial x y (\<lambda>v. v - delta) p))) = p"
  by (simp add: updAxial_def)

lemma restore_lateral:
  "updLateral x y (\<lambda>v. v - delta) (updLateral x y (\<lambda>v. v + delta)
     (updLateral x y (\<lambda>v. v + delta) (updLateral x y (\<lambda>v. v - delta) p))) = p"
  by (simp add: updLateral_def)

lemma cellStep_le: "sumSquaredDev (cellStep T x y s) \<le> sumSquaredDev s"
proof -
  have 1: "sumSquaredDev (if optAxial (parameters t) x y then tryAxial x y T t else t)
             \<le> sumSquaredDev t" for t
    by (simp add: tryAxial_def tryScalar_le)
  have 2: "sumSquaredDev (if optLat (parameters t) x y then tryLateral x y T t else t)
             \<le> sumSquaredDev t" for t
    by (simp add: tryLateral_def tryScalar_le)
  let ?a = "(if optAxial (parameters s) x y then tryAxial x y T s else s)\<lparr>improved := False\<rparr>"
  from 1 [of s] 2 [of ?a] show ?thesis
    by (simp add: cellStep_def Let_def split del: if_split)
qed

lemma fold_cellStep_le: "sumSquaredDev (fold (cellStep T x) ys s) \<le> sumSquaredDev s"
proof (induction ys arbitrary: s)
  case Nil
  show ?case by simp
next
  case (Cons y ys)
  from Cons [of "cellStep T x y s"] cellStep_le [of T x y s] show ?case
    by simp
qed

lemma residueStep_le: "sumSquaredDev (residueStep T x s) \<le> sumSquaredDev s"
proof -
  have 1: "sumSquaredDev (if optPropX (parameters t) x then tryPropensityX x T t else t)
             \<le> sumSquaredDev t" for t
    by (simp add: tryPropensityX_def tryScalar_le)
  have 2: "sumSquaredDev (if optPropY (parameters t) x then tryPropensityY x T t else t)
             \<le> sumSquaredDev t" for t
    by (simp add: tryPropensityY_def tryScalar_le)
  let ?a = "(if optPropX (parameters s) x then tryPropensityX x T s else s)\<lparr>improved := False\<rparr>"
  let ?b = "(if optPropY (parameters ?a) x then tryPropensityY x T ?a else ?a)\<lparr>improved := False\<rparr>"
  have b: "sumSquaredDev ?b \<le> sumSquaredDev s"
    using 1 [of s] 2 [of ?a] by (simp split del: if_split)
  have eq: "residueStep T x s = fold (cellStep T x) [0..26] ?b"
    by (simp add: residueStep_def Let_def split del: if_split)
  show ?thesis
    unfolding eq by (rule order_trans [OF fold_cellStep_le b])
qed

lemma optimizationRound_le: "sumSquaredDev (optimizationRound T s) \<le> sumSquaredDev s"
proof -
  have "sumSquaredDev (fold (residueStep T) xs s) \<le> sumSquaredDev s" for xs
  proof (induction xs arbitrary: s)
    case Nil
    show ?case by simp
  next
    case (Cons x xs)
    from Cons [of "residueStep T x s"] residueStep_le [of T x s] show ?case
      by simp
  qed
  then show ?thesis
    by (simp add: optimizationRound_def)
qed

lemma optimize_le: "sumSquaredDev (optimize T roundNo d s) \<le> sumSquaredDev s"
proof (induction T roundNo d s rule: optimize.induct)
  case (1 T roundNo d s)
  show ?case
  proof (cases d)
    case True
    then show ?thesis by simp
  next
    case False
    let ?r = "optimizationRound T s"
    let ?s = "?r\<lparr>improved := False, improvedRound := False\<rparr>"
    let ?d = "\<not> improvedRound ?r \<or> maxRounds \<le> roundNo + 1"
    have "sumSquaredDev (optimize T (roundNo + 1) ?d ?s) \<le> sumSquaredDev ?s"
      using False by (intro "1.IH") auto
    moreover have "sumSquaredDev ?s \<le> sumSquaredDev s"
      by (simp add: optimizationRound_le)
    moreover have "optimize T roundNo d s = optimize T (roundNo + 1) ?d ?s"
      using False by (subst optimize.simps) (simp add: Let_def)
    ultimately show ?thesis by simp
  qed
qed



end
